theory Spec2Isabelle
  imports Complex_Main "HOL-Library.AList"
begin

section \<open>Scores, errors and tensors\<close>

text \<open>
  A score is a float that may be minus infinity: the antecedent log-mask is the logarithm of
  a 0/1 tensor, and adding it to a score leaves the score or sends it to minus infinity.
  Scores produced by the scoring networks are finite; not-a-number and plus infinity are
  outside the model.
\<close>

datatype xreal = NegInf | Fin real

fun xadd :: "xreal \<Rightarrow> xreal \<Rightarrow> xreal" where
  "xadd (Fin a) (Fin b) = Fin (a + b)"
| "xadd _ _ = NegInf"

fun xless :: "xreal \<Rightarrow> xreal \<Rightarrow> bool" where
  "xless NegInf (Fin b) = True"
| "xless (Fin a) (Fin b) = (a < b)"
| "xless _ NegInf = False"

text \<open>
  Every raise of the Python is a value: a missing dictionary key, a value of the wrong
  kind, an index outside a tensor, and the tensor library's complaint about shapes.
\<close>

datatype error = KeyError string | TypeError | IndexError | RuntimeError

definition andthen :: "error + 'a \<Rightarrow> ('a \<Rightarrow> error + 'b) \<Rightarrow> error + 'b" where
  "andthen r f = (case r of Inl e \<Rightarrow> Inl e | Inr x \<Rightarrow> f x)"

fun mapM :: "('a \<Rightarrow> error + 'b) \<Rightarrow> 'a list \<Rightarrow> error + 'b list" where
  "mapM f [] = Inr []"
| "mapM f (x # xs) =
     (case f x of Inl e \<Rightarrow> Inl e
      | Inr y \<Rightarrow> (case mapM f xs of Inl e \<Rightarrow> Inl e | Inr ys \<Rightarrow> Inr (y # ys)))"

text \<open>
  An elementwise operation on two tensors along one dimension. The tensor library also
  broadcasts a dimension of size one; the model reports every mismatch as an error.
\<close>

definition map2M :: "('a \<Rightarrow> 'b \<Rightarrow> error + 'c) \<Rightarrow> 'a list \<Rightarrow> 'b list \<Rightarrow> error + 'c list" where
  "map2M f xs ys =
     (if length xs = length ys then mapM (\<lambda>(x, y). f x y) (zip xs ys) else Inl RuntimeError)"

text \<open>\<^verbatim>\<open>t.size(1)\<close> of a tensor whose first dimension is the batch.\<close>

definition size1 :: "'a list list \<Rightarrow> nat" where
  "size1 t = (case t of [] \<Rightarrow> 0 | r # _ \<Rightarrow> length r)"

text \<open>\<^verbatim>\<open>index_select\<close> along one dimension: an index outside the tensor raises.\<close>

definition index_select :: "'a list \<Rightarrow> int \<Rightarrow> error + 'a" where
  "index_select xs i =
     (if 0 \<le> i \<and> i < int (length xs) then Inr (xs ! nat i) else Inl IndexError)"

text \<open>
  \<^verbatim>\<open>util.flatten_and_batch_shift_indices(indices, sequence_length)\<close>: the index of
  batch element \<open>b\<close> is shifted by \<open>b * sequence_length\<close>, and the result is flattened.
\<close>

definition flatten_and_batch_shift_indices :: "int list list \<Rightarrow> nat \<Rightarrow> int list" where
  "flatten_and_batch_shift_indices indices sequence_length =
     concat (map (\<lambda>(b, row). map (\<lambda>i. i + int b * int sequence_length) row)
                 (enumerate 0 indices))"

fun chop :: "nat list \<Rightarrow> 'a list \<Rightarrow> 'a list list" where
  "chop [] xs = []"
| "chop (n # ns) xs = take n xs # chop ns (drop n xs)"

text \<open>\<^verbatim>\<open>flat.view(*indices.size())\<close>: the flat list cut into the rows of \<open>indices\<close>.\<close>

definition view_as :: "'b list list \<Rightarrow> 'a list \<Rightarrow> error + 'a list list" where
  "view_as shape xs =
     (if length xs = sum_list (map length shape) then Inr (chop (map length shape) xs)
      else Inl RuntimeError)"

text \<open>
  \<^verbatim>\<open>util.batched_index_select(target, indices, flattened_indices)\<close>: the target is
  flattened over the batch, read at the flattened indices, and viewed in the shape of
  \<open>indices\<close>.
\<close>

definition batched_index_select ::
  "'a list list \<Rightarrow> int list list \<Rightarrow> int list \<Rightarrow> error + 'a list list" where
  "batched_index_select target indices flattened_indices =
     (case mapM (index_select (concat target)) flattened_indices of
        Inl e \<Rightarrow> Inl e
      | Inr flattened_selected \<Rightarrow> view_as indices flattened_selected)"

text \<open>
  \<^verbatim>\<open>util.flattened_index_select(target, indices)\<close>: for every batch element, the rows
  of \<open>target\<close> named by the two-dimensional \<open>indices\<close>.
\<close>

definition flattened_index_select ::
  "'a list list \<Rightarrow> int list list \<Rightarrow> error + 'a list list list" where
  "flattened_index_select target indices =
     mapM (\<lambda>t. mapM (\<lambda>row. mapM (index_select t) row) indices) target"

text \<open>
  \<^verbatim>\<open>scores.max(2)\<close> returns, for every row, the index of its maximum, the first one
  among equal maxima; an empty row raises.
\<close>

fun argmax_from :: "xreal \<Rightarrow> nat \<Rightarrow> nat \<Rightarrow> xreal list \<Rightarrow> nat" where
  "argmax_from best k i [] = k"
| "argmax_from best k i (x # xs) =
     (if xless best x then argmax_from x i (Suc i) xs else argmax_from best k (Suc i) xs)"

definition argmax :: "xreal list \<Rightarrow> error + nat" where
  "argmax row = (case row of [] \<Rightarrow> Inl RuntimeError | x # xs \<Rightarrow> Inr (argmax_from x 0 1 xs))"

text \<open>
  Lines 271-275 and 299-300 of \<^verbatim>\<open>forward\<close>:
  \<^verbatim>\<open>_, predicted_antecedents = coreference_scores.max(2); predicted_antecedents -= 1\<close>.
\<close>

definition predict_antecedents :: "xreal list list list \<Rightarrow> error + int list list" where
  "predict_antecedents coreference_scores =
     (case mapM (mapM argmax) coreference_scores of
        Inl e \<Rightarrow> Inl e
      | Inr slots \<Rightarrow> Inr (map (map (\<lambda>k. int k - 1)) slots))"

section \<open>The helpers the resolver inherits\<close>

text \<open>
  Modelled from the spec: \<^verbatim>\<open>_generate_valid_antecedents\<close> is inherited from the
  library's resolver and is not among the sources. Section 4.2: offsets are 1..W; row i,
  slot j names candidate i - offsets[j]; a negative candidate makes the slot invalid
  (log-mask minus infinity), else valid (log-mask 0). Section 4.3 has a masked slot gather
  in-bounds placeholder data: the index of an invalid slot is 0.
\<close>

definition generate_valid_antecedents ::
  "nat \<Rightarrow> nat \<Rightarrow> int list list \<times> int list \<times> xreal list list" where
  "generate_valid_antecedents num_spans_to_keep max_antecedents =
     (let target_indices = map int [0..<num_spans_to_keep];
          valid_antecedent_offsets = map (\<lambda>j. int j + 1) [0..<max_antecedents];
          raw_antecedent_indices =
            map (\<lambda>i. map (\<lambda>off. i - off) valid_antecedent_offsets) target_indices;
          valid_antecedent_log_mask =
            map (map (\<lambda>c. if 0 \<le> c then Fin 0 else NegInf)) raw_antecedent_indices;
          valid_antecedent_indices = map (map (max 0)) raw_antecedent_indices
      in (valid_antecedent_indices, valid_antecedent_offsets, valid_antecedent_log_mask))"

text \<open>
  Modelled from the spec: \<^verbatim>\<open>_compute_span_pair_embeddings\<close> is inherited and is not
  among the sources. Section 4.3: the feature of (span i, slot j) is built from span i's
  embedding, the antecedent candidate's embedding and the offset of the slot. The model
  keeps the three as a triple; their product and the bucketed-distance embedding are
  functions of the triple and belong to the scorer.
\<close>

definition compute_span_pair_embeddings ::
  "'e list list \<Rightarrow> 'e list list list \<Rightarrow> int list \<Rightarrow> error + ('e \<times> 'e \<times> int) list list list" where
  "compute_span_pair_embeddings top_span_embeddings antecedent_embeddings antecedent_offsets =
     map2M (\<lambda>targets candidates.
              map2M (\<lambda>target row.
                       map2M (\<lambda>candidate off. Inr (target, candidate, off)) row antecedent_offsets)
                    targets candidates)
           top_span_embeddings antecedent_embeddings"

text \<open>
  Modelled from the spec: \<^verbatim>\<open>_compute_coreference_scores\<close> is inherited and is not
  among the sources. Section 4.4: slot 0 is fixed at 0; slot j (1..W) is the span's mention
  score plus the antecedent's mention score plus the pair score plus the log-mask.
\<close>

definition score_row ::
  "('e \<times> 'e \<times> int \<Rightarrow> real) \<Rightarrow> ('e \<times> 'e \<times> int) list \<Rightarrow> xreal \<Rightarrow> xreal list \<Rightarrow>
   xreal list \<Rightarrow> error + xreal list" where
  "score_row scorer pairs span_score antecedent_scores log_mask =
     andthen (map2M (\<lambda>p a. Inr (xadd (xadd (Fin (scorer p)) span_score) a))
                pairs antecedent_scores) (\<lambda>raw.
     andthen (map2M (\<lambda>x m. Inr (xadd x m)) raw log_mask) (\<lambda>masked.
       Inr (Fin 0 # masked)))"

definition score_document ::
  "('e \<times> 'e \<times> int \<Rightarrow> real) \<Rightarrow> ('e \<times> 'e \<times> int) list list \<Rightarrow> xreal list \<Rightarrow>
   xreal list list \<Rightarrow> xreal list list \<Rightarrow> error + xreal list list" where
  "score_document scorer pairs span_scores antecedent_scores log_mask =
     andthen (map2M (\<lambda>p s. Inr (p, s)) pairs span_scores) (\<lambda>spans_side.
     andthen (map2M (\<lambda>a m. Inr (a, m)) antecedent_scores log_mask) (\<lambda>antecedent_side.
       map2M (\<lambda>(prow, s) (arow, mrow). score_row scorer prow s arow mrow)
             spans_side antecedent_side))"

definition compute_coreference_scores ::
  "('e \<times> 'e \<times> int \<Rightarrow> real) \<Rightarrow> ('e \<times> 'e \<times> int) list list list \<Rightarrow> xreal list list \<Rightarrow>
   xreal list list list \<Rightarrow> xreal list list \<Rightarrow> error + xreal list list list" where
  "compute_coreference_scores scorer pairwise_embeddings top_span_mention_scores
       antecedent_mention_scores antecedent_log_mask =
     andthen (map2M (\<lambda>pairs scores. Inr (pairs, scores))
                pairwise_embeddings top_span_mention_scores) (\<lambda>documents.
       map2M (\<lambda>(pairs, scores) antecedents.
                score_document scorer pairs scores antecedents antecedent_log_mask)
             documents antecedent_mention_scores)"

text \<open>
  Line 314: \<^verbatim>\<open>antecedent_labels += valid_antecedent_log_mask.long()\<close>. Labels are 64-bit
  integers and the addition wraps. The conversion of a float to a 64-bit integer truncates
  towards zero; minus infinity has no integer value and the conversion yields the smallest
  64-bit integer.
\<close>

definition wrap64 :: "int \<Rightarrow> int" where
  "wrap64 x = (x + 2 ^ 63) mod 2 ^ 64 - 2 ^ 63"

fun long_of :: "xreal \<Rightarrow> int" where
  "long_of NegInf = - (2 ^ 63)"
| "long_of (Fin x) = (if 0 \<le> x then \<lfloor>x\<rfloor> else \<lceil>x\<rceil>)"

definition add_log_mask :: "int list list list \<Rightarrow> xreal list list \<Rightarrow> error + int list list list" where
  "add_log_mask antecedent_labels valid_antecedent_log_mask =
     mapM (\<lambda>labels.
             map2M (\<lambda>row mrow. map2M (\<lambda>l m. Inr (wrap64 (l + long_of m))) row mrow)
                   labels valid_antecedent_log_mask)
          antecedent_labels"

text \<open>
  Modelled from the spec: \<^verbatim>\<open>_compute_antecedent_gold_labels\<close> is inherited and is not
  among the sources. Section 3 and section 4.5: slot j > 0 of span i is true iff the
  antecedent label of that slot equals i's cluster id and i's cluster id is not the "none"
  sentinel (-1 in the docstring of \<^verbatim>\<open>forward\<close>); slot 0 is true iff no slot j > 0 is.
  The validity of a slot reaches this function through the labels: line 314 has moved the
  label of an invalid slot out of the range of cluster ids.
\<close>

definition compute_antecedent_gold_labels ::
  "int list list \<Rightarrow> int list list list \<Rightarrow> error + bool list list list" where
  "compute_antecedent_gold_labels top_span_labels antecedent_labels =
     map2M (\<lambda>targets rows.
              map2M (\<lambda>target row.
                       (let pairwise_labels = map (\<lambda>l. target = l \<and> target \<noteq> - 1) row;
                            dummy_label = list_all Not pairwise_labels
                        in Inr (dummy_label # pairwise_labels)))
                    targets rows)
           top_span_labels antecedent_labels"

section \<open>Dictionaries and the arguments of forward\<close>

type_synonym span = "int \<times> int"

text \<open>
  The values the dictionaries of \<^verbatim>\<open>forward\<close> hold: tensors by element type and rank,
  an integer, the documents' texts, a Python list and a nested dictionary. Masks are 0/1
  float tensors in the source and Booleans here; a trailing dimension of size one
  (\<^verbatim>\<open>unsqueeze(-1)\<close>) is not written.
\<close>

datatype ('e, 'm, 'f) val =
    Num nat
  | Long1 "int list"
  | Long2 "int list list"
  | Spans "span list list"
  | Mask2 "bool list list"
  | Float2 "xreal list list"
  | Float3 "xreal list list list"
  | Embeds "'e list list"
  | TextMask 'm
  | Scalar 'f
  | Docs "string list list"
  | PyList "('e, 'm, 'f) val list"
  | Dict "(string \<times> ('e, 'm, 'f) val) list"

text \<open>
  A dictionary is an association list in insertion order; \<^verbatim>\<open>d[k]\<close> raises on a missing
  key and \<^verbatim>\<open>d[k] = v\<close> replaces the value of a key that is present.
\<close>

type_synonym ('e, 'm, 'f) dict = "(string \<times> ('e, 'm, 'f) val) list"

definition getitem :: "(string \<times> 'v) list \<Rightarrow> string \<Rightarrow> error + 'v" where
  "getitem d k = (case map_of d k of None \<Rightarrow> Inl (KeyError k) | Some v \<Rightarrow> Inr v)"

definition setitem :: "(string \<times> 'v) list \<Rightarrow> string \<Rightarrow> 'v \<Rightarrow> (string \<times> 'v) list" where
  "setitem d k v = AList.update k v d"

fun as_long1 :: "('e, 'm, 'f) val \<Rightarrow> error + int list" where
  "as_long1 (Long1 t) = Inr t"
| "as_long1 _ = Inl TypeError"

fun as_long2 :: "('e, 'm, 'f) val \<Rightarrow> error + int list list" where
  "as_long2 (Long2 t) = Inr t"
| "as_long2 _ = Inl TypeError"

fun as_spans :: "('e, 'm, 'f) val \<Rightarrow> error + span list list" where
  "as_spans (Spans t) = Inr t"
| "as_spans _ = Inl TypeError"

fun as_mask2 :: "('e, 'm, 'f) val \<Rightarrow> error + bool list list" where
  "as_mask2 (Mask2 t) = Inr t"
| "as_mask2 _ = Inl TypeError"

fun as_float2 :: "('e, 'm, 'f) val \<Rightarrow> error + xreal list list" where
  "as_float2 (Float2 t) = Inr t"
| "as_float2 _ = Inl TypeError"

fun as_float3 :: "('e, 'm, 'f) val \<Rightarrow> error + xreal list list list" where
  "as_float3 (Float3 t) = Inr t"
| "as_float3 _ = Inl TypeError"

fun as_embeds :: "('e, 'm, 'f) val \<Rightarrow> error + 'e list list" where
  "as_embeds (Embeds t) = Inr t"
| "as_embeds _ = Inl TypeError"

fun as_text_mask :: "('e, 'm, 'f) val \<Rightarrow> error + 'm" where
  "as_text_mask (TextMask t) = Inr t"
| "as_text_mask _ = Inl TypeError"

fun as_dict :: "('e, 'm, 'f) val \<Rightarrow> error + ('e, 'm, 'f) dict" where
  "as_dict (Dict d) = Inr d"
| "as_dict _ = Inl TypeError"

text \<open>\<^verbatim>\<open>v[i]\<close> on a Python list.\<close>

fun list_item :: "('e, 'm, 'f) val \<Rightarrow> nat \<Rightarrow> error + ('e, 'm, 'f) val" where
  "list_item (PyList vs) i = (if i < length vs then Inr (vs ! i) else Inl IndexError)"
| "list_item _ i = Inl TypeError"

record metadata =
  original_text :: "string list"
  clusters :: "span list list"

text \<open>
  The parameters of \<^verbatim>\<open>forward\<close> (lines 101-111); \<^verbatim>\<open>None\<close> is \<open>None\<close>.
\<close>

record ('t, 'e, 'm, 'f) args =
  text_in :: 't
  spans :: "span list list"
  span_labels :: "int list list option"
  metadata_in :: "metadata list option"
  get_scores :: bool
  top_spans_info :: "('e, 'm, 'f) dict option"
  coref_scores_info :: "('e, 'm, 'f) dict option"
  return_mention_scores :: bool
  return_coref_scores :: bool

text \<open>
  \<^verbatim>\<open>if not d\<close> on an optional dictionary holds for \<^verbatim>\<open>None\<close> and for the empty
  dictionary: \<open>given d\<close> is the dictionary when the test fails.
\<close>

definition given :: "('e, 'm, 'f) dict option \<Rightarrow> ('e, 'm, 'f) dict option" where
  "given d = (case d of None \<Rightarrow> None | Some m \<Rightarrow> (case m of [] \<Rightarrow> None | _ \<Rightarrow> Some m))"

text \<open>
  The resolver itself (\<^verbatim>\<open>self\<close>): its two configured numbers, the modules it was given
  and the floating-point routines of the tensor library that the loss calls. All are
  collaborators outside the sources, taken as parameters:
  \<^item> \<open>document_length_of\<close>: \<^verbatim>\<open>text_embeddings.size(1)\<close> (lines 150-152);
  \<^item> \<open>span_embeddings_of\<close>: the context layer, the two span extractors and their
    concatenation (lines 171-178), deterministic (dropout as at evaluation time);
  \<^item> \<open>mention_pruner_scores\<close> and \<open>mention_pruner_select\<close>: the two ways
    \<^verbatim>\<open>self._mention_pruner\<close> is called (lines 184-185 and 192-197); the selection may
    raise;
  \<^item> \<open>antecedent_scorer\<close>: the antecedent feed-forward network and its linear layer;
  \<^item> \<open>update_metrics\<close>: \<^verbatim>\<open>self._mention_recall\<close> and \<^verbatim>\<open>self._conll_coref_scores\<close>
    (lines 334-335); the accumulators are not part of the result, a raise is;
  \<^item> \<open>masked_log_softmax\<close>, \<open>log_of_label\<close>, \<open>float_add\<close>, \<open>logsumexp\<close>,
    \<open>negated_sum\<close>: lines 330-332.
\<close>

record ('t, 'e, 'm, 'f) resolver =
  self_spans_per_word :: real
  self_max_antecedents :: nat
  document_length_of :: "'t \<Rightarrow> nat"
  get_text_field_mask :: "'t \<Rightarrow> 'm"
  span_embeddings_of :: "'t \<Rightarrow> 'm \<Rightarrow> span list list \<Rightarrow> 'e list list"
  mention_pruner_scores :: "'e list list \<Rightarrow> bool list list \<Rightarrow> nat \<Rightarrow> xreal list list"
  mention_pruner_select ::
    "'e list list \<Rightarrow> bool list list \<Rightarrow> nat \<Rightarrow> xreal list list \<Rightarrow>
     error + ('e list list \<times> bool list list \<times> int list list \<times> xreal list list)"
  antecedent_scorer :: "'e \<times> 'e \<times> int \<Rightarrow> real"
  update_metrics ::
    "span list list \<Rightarrow> int list list \<Rightarrow> int list list \<Rightarrow> metadata list option \<Rightarrow> error option"
  masked_log_softmax :: "xreal list list list \<Rightarrow> bool list list \<Rightarrow> 'f list list list"
  log_of_label :: "bool \<Rightarrow> 'f"
  float_add :: "'f \<Rightarrow> 'f \<Rightarrow> 'f"
  logsumexp :: "'f list \<Rightarrow> 'f"
  negated_sum :: "'f list list \<Rightarrow> 'f"

section \<open>The forward pass\<close>

text \<open>
  Line 159: \<^verbatim>\<open>span_mask = (spans[:, :, 0] >= 0).squeeze(-1).float()\<close>, and line 168:
  \<^verbatim>\<open>spans = F.relu(spans.float()).long()\<close>.
\<close>

definition span_mask_of :: "span list list \<Rightarrow> bool list list" where
  "span_mask_of t = map (map (\<lambda>s. 0 \<le> fst s)) t"

definition relu_spans :: "span list list \<Rightarrow> span list list" where
  "relu_spans t = map (map (\<lambda>(s, e). (max 0 s, max 0 e))) t"

text \<open>
  Line 181: \<^verbatim>\<open>int(math.floor(self._spans_per_word * document_length))\<close>. The product
  is taken exactly here; the fraction is positive, so the result is a natural number.
\<close>

definition num_spans_to_keep_of :: "('t, 'e, 'm, 'f) resolver \<Rightarrow> 't \<Rightarrow> nat" where
  "num_spans_to_keep_of r txt =
     nat \<lfloor>self_spans_per_word r * real (document_length_of r txt)\<rfloor>"

text \<open>
  The local variables that both pruning branches (lines 148-217) leave behind. The mention
  scores are only stored by the second branch, so they are kept as the dictionary held
  them.
\<close>

record ('e, 'm, 'f) pruning =
  pr_span_mention_scores :: "('e, 'm, 'f) val"
  pr_span_embeddings :: "'e list list"
  pr_num_spans_to_keep :: nat
  pr_spans :: "span list list"
  pr_top_span_embeddings :: "'e list list"
  pr_top_span_mention_scores :: "xreal list list"
  pr_top_span_indices :: "int list list"
  pr_flat_top_span_indices :: "int list"
  pr_top_span_mask :: "bool list list"
  pr_text_mask :: 'm

text \<open>
  Lines 149-206, the fresh input. The result is the dictionary of the early return
  (\<^verbatim>\<open>return_mention_scores\<close>) or the local variables.
\<close>

definition prune_fresh ::
  "('t, 'e, 'm, 'f) resolver \<Rightarrow> ('t, 'e, 'm, 'f) args \<Rightarrow>
   error + (('e, 'm, 'f) dict + ('e, 'm, 'f) pruning)" where
  "prune_fresh r a =
     (let num_spans = size1 (spans a);
          text_mask = get_text_field_mask r (text_in a);
          span_mask = span_mask_of (spans a);
          clamped = relu_spans (spans a);
          span_embeddings = span_embeddings_of r (text_in a) text_mask clamped;
          num_spans_to_keep = num_spans_to_keep_of r (text_in a);
          span_mention_scores = mention_pruner_scores r span_embeddings span_mask (size1 clamped)
      in if return_mention_scores a then
           Inr (Inl [(''num_spans_to_keep'', Num num_spans_to_keep),
                     (''mention_scores'', Float2 span_mention_scores),
                     (''mask'', Mask2 span_mask),
                     (''embeds'', Embeds span_embeddings),
                     (''text_mask'', TextMask text_mask)])
         else
           (case mention_pruner_select r span_embeddings span_mask num_spans_to_keep
                   span_mention_scores of
              Inl e \<Rightarrow> Inl e
            | Inr (top_span_embeddings, top_span_mask, top_span_indices, top_span_mention_scores) \<Rightarrow>
                Inr (Inr \<lparr>pr_span_mention_scores = Float2 span_mention_scores,
                          pr_span_embeddings = span_embeddings,
                          pr_num_spans_to_keep = num_spans_to_keep,
                          pr_spans = clamped,
                          pr_top_span_embeddings = top_span_embeddings,
                          pr_top_span_mention_scores = top_span_mention_scores,
                          pr_top_span_indices = top_span_indices,
                          pr_flat_top_span_indices =
                            flatten_and_batch_shift_indices top_span_indices num_spans,
                          pr_top_span_mask = top_span_mask,
                          pr_text_mask = text_mask\<rparr>)))"

text \<open>
  Lines 209-217, the supplied pruning state. The caller's \<^verbatim>\<open>spans\<close> is used as it is:
  line 168 belongs to the other branch. A value of the wrong kind is reported where it is
  read.
\<close>

definition prune_from_info ::
  "('e, 'm, 'f) dict \<Rightarrow> span list list \<Rightarrow> error + ('e, 'm, 'f) pruning" where
  "prune_from_info info spans_arg =
     andthen (getitem info ''mention_scores'') (\<lambda>span_mention_scores.
     andthen (andthen (getitem info ''top_scores'') as_float2) (\<lambda>top_span_mention_scores.
     andthen (andthen (getitem info ''span_indices'') as_long2) (\<lambda>top_span_indices.
     andthen (andthen (getitem info ''flat_top_indices'') as_long1) (\<lambda>flat_top_span_indices.
     andthen (andthen (getitem info ''top_mask'') as_mask2) (\<lambda>top_span_mask.
     andthen (andthen (getitem info ''span_embeddings'') as_embeds) (\<lambda>span_embeddings.
     andthen (batched_index_select span_embeddings top_span_indices flat_top_span_indices)
       (\<lambda>top_span_embeddings.
     andthen (andthen (getitem info ''text_mask'') as_text_mask) (\<lambda>text_mask.
       Inr \<lparr>pr_span_mention_scores = span_mention_scores,
            pr_span_embeddings = span_embeddings,
            pr_num_spans_to_keep = size1 top_span_mention_scores,
            pr_spans = spans_arg,
            pr_top_span_embeddings = top_span_embeddings,
            pr_top_span_mention_scores = top_span_mention_scores,
            pr_top_span_indices = top_span_indices,
            pr_flat_top_span_indices = flat_top_span_indices,
            pr_top_span_mask = top_span_mask,
            pr_text_mask = text_mask\<rparr>))))))))"

text \<open>
  The local variables that the three branches leave behind for lines 302-341. The four that
  the third branch only looks up are kept as the dictionary held them.
\<close>

record ('e, 'm, 'f) locals =
  lc_output_dict :: "('e, 'm, 'f) dict"
  lc_top_span_indices :: "('e, 'm, 'f) val"
  lc_flat_top_span_indices :: "('e, 'm, 'f) val"
  lc_top_span_mask :: "('e, 'm, 'f) val"
  lc_valid_antecedent_log_mask :: "('e, 'm, 'f) val"
  lc_top_spans :: "span list list"
  lc_valid_antecedent_indices :: "int list list"
  lc_coreference_scores :: "xreal list list list"
  lc_predicted_antecedents :: "int list list"

text \<open>
  Lines 221-285: the kept spans, the antecedent window, the score matrix and the predicted
  antecedents. The result is the state dictionary of the early return
  (\<^verbatim>\<open>return_coref_scores\<close>) or the local variables.
\<close>

definition score_spans ::
  "('t, 'e, 'm, 'f) resolver \<Rightarrow> ('t, 'e, 'm, 'f) args \<Rightarrow> ('e, 'm, 'f) pruning \<Rightarrow>
   error + (('e, 'm, 'f) dict + ('e, 'm, 'f) locals)" where
  "score_spans r a p =
     andthen (batched_index_select (pr_spans p) (pr_top_span_indices p)
                (pr_flat_top_span_indices p)) (\<lambda>top_spans.
       (let max_antecedents = min (self_max_antecedents r) (pr_num_spans_to_keep p);
            (valid_antecedent_indices, valid_antecedent_offsets, valid_antecedent_log_mask) =
               generate_valid_antecedents (pr_num_spans_to_keep p) max_antecedents
        in
     andthen (flattened_index_select (pr_top_span_embeddings p) valid_antecedent_indices)
       (\<lambda>candidate_antecedent_embeddings.
     andthen (flattened_index_select (pr_top_span_mention_scores p) valid_antecedent_indices)
       (\<lambda>candidate_antecedent_mention_scores.
     andthen (compute_span_pair_embeddings (pr_top_span_embeddings p)
                candidate_antecedent_embeddings valid_antecedent_offsets)
       (\<lambda>span_pair_embeddings.
     andthen (compute_coreference_scores (antecedent_scorer r) span_pair_embeddings
                (pr_top_span_mention_scores p) candidate_antecedent_mention_scores
                valid_antecedent_log_mask)
       (\<lambda>coreference_scores.
     andthen (predict_antecedents coreference_scores) (\<lambda>predicted_antecedents.
       (let output_dict = [(''top_spans'', Spans top_spans),
                           (''antecedent_indices'', Long2 valid_antecedent_indices),
                           (''predicted_antecedents'', Long2 predicted_antecedents)];
            output_dict = (if get_scores a \<or> return_coref_scores a
                           then setitem output_dict ''coreference_scores''
                                  (Float3 coreference_scores)
                           else output_dict)
        in if return_coref_scores a then
             Inr (Inl [(''output_dict'', Dict output_dict),
                       (''top_span_inds'', PyList [Long2 (pr_top_span_indices p),
                                                   Long1 (pr_flat_top_span_indices p)]),
                       (''top_span_mask'', Mask2 (pr_top_span_mask p)),
                       (''ant_mask'', Float2 valid_antecedent_log_mask)])
           else
             Inr (Inr \<lparr>lc_output_dict = output_dict,
                       lc_top_span_indices = Long2 (pr_top_span_indices p),
                       lc_flat_top_span_indices = Long1 (pr_flat_top_span_indices p),
                       lc_top_span_mask = Mask2 (pr_top_span_mask p),
                       lc_valid_antecedent_log_mask = Float2 valid_antecedent_log_mask,
                       lc_top_spans = top_spans,
                       lc_valid_antecedent_indices = valid_antecedent_indices,
                       lc_coreference_scores = coreference_scores,
                       lc_predicted_antecedents = predicted_antecedents\<rparr>)))))))))"

text \<open>
  Lines 287-301, the supplied scoring state. The flattened antecedent indices of lines
  296-297 are computed and never read.
\<close>

definition decode_from_info :: "('e, 'm, 'f) dict \<Rightarrow> error + ('e, 'm, 'f) locals" where
  "decode_from_info info =
     andthen (getitem info ''top_span_inds'') (\<lambda>top_span_inds.
     andthen (list_item top_span_inds 0) (\<lambda>top_span_indices.
     andthen (list_item top_span_inds 1) (\<lambda>flat_top_span_indices.
     andthen (getitem info ''top_span_mask'') (\<lambda>top_span_mask.
     andthen (getitem info ''valid_antecedent_log_mask'') (\<lambda>valid_antecedent_log_mask.
     andthen (andthen (getitem info ''output_dict'') as_dict) (\<lambda>output_dict.
     andthen (andthen (getitem output_dict ''top_spans'') as_spans) (\<lambda>top_spans.
     andthen (andthen (getitem output_dict ''antecedent_indices'') as_long2)
       (\<lambda>valid_antecedent_indices.
     andthen (andthen (getitem output_dict ''coreference_scores'') as_float3)
       (\<lambda>coreference_scores.
     andthen (predict_antecedents coreference_scores) (\<lambda>predicted_antecedents.
       Inr \<lparr>lc_output_dict =
              setitem output_dict ''predicted_antecedents'' (Long2 predicted_antecedents),
            lc_top_span_indices = top_span_indices,
            lc_flat_top_span_indices = flat_top_span_indices,
            lc_top_span_mask = top_span_mask,
            lc_valid_antecedent_log_mask = valid_antecedent_log_mask,
            lc_top_spans = top_spans,
            lc_valid_antecedent_indices = valid_antecedent_indices,
            lc_coreference_scores = coreference_scores,
            lc_predicted_antecedents = predicted_antecedents\<rparr>))))))))))"

text \<open>
  Lines 308-319: the gold antecedent indicator of the kept spans.
\<close>

definition gold_antecedent_labels_of ::
  "('e, 'm, 'f) locals \<Rightarrow> int list list \<Rightarrow> error + bool list list list" where
  "gold_antecedent_labels_of l labels =
     andthen (as_long2 (lc_top_span_indices l)) (\<lambda>top_span_indices.
     andthen (as_long1 (lc_flat_top_span_indices l)) (\<lambda>flat_top_span_indices.
     andthen (batched_index_select labels top_span_indices flat_top_span_indices)
       (\<lambda>pruned_gold_labels.
     andthen (flattened_index_select pruned_gold_labels (lc_valid_antecedent_indices l))
       (\<lambda>antecedent_labels.
     andthen (as_float2 (lc_valid_antecedent_log_mask l)) (\<lambda>valid_antecedent_log_mask.
     andthen (add_log_mask antecedent_labels valid_antecedent_log_mask) (\<lambda>antecedent_labels.
       compute_antecedent_gold_labels pruned_gold_labels antecedent_labels))))))"

text \<open>
  Lines 330-332: the negative marginal log-likelihood.
\<close>

definition negative_marginal_log_likelihood ::
  "('t, 'e, 'm, 'f) resolver \<Rightarrow> ('e, 'm, 'f) locals \<Rightarrow> int list list \<Rightarrow> error + 'f" where
  "negative_marginal_log_likelihood r l labels =
     andthen (gold_antecedent_labels_of l labels) (\<lambda>gold_antecedent_labels.
     andthen (as_mask2 (lc_top_span_mask l)) (\<lambda>top_span_mask.
       (let coreference_log_probs = masked_log_softmax r (lc_coreference_scores l) top_span_mask
        in
     andthen (map2M (map2M (map2M (\<lambda>p g. Inr (float_add r p (log_of_label r g)))))
                coreference_log_probs gold_antecedent_labels)
       (\<lambda>correct_antecedent_log_probs.
          Inr (negated_sum r (map (map (logsumexp r)) correct_antecedent_log_probs))))))"

text \<open>
  Lines 330-337: the loss, then the two metrics; the loss is stored once they have
  returned.
\<close>

definition marginal_loss ::
  "('t, 'e, 'm, 'f) resolver \<Rightarrow> ('e, 'm, 'f) locals \<Rightarrow> int list list \<Rightarrow>
   metadata list option \<Rightarrow> error + 'f" where
  "marginal_loss r l labels md =
     andthen (negative_marginal_log_likelihood r l labels) (\<lambda>nll.
       case update_metrics r (lc_top_spans l) (lc_valid_antecedent_indices l)
              (lc_predicted_antecedents l) md of
         Some e \<Rightarrow> Inl e
       | None \<Rightarrow> Inr nll)"

text \<open>Lines 302-341, common to the three branches.\<close>

definition finish ::
  "('t, 'e, 'm, 'f) resolver \<Rightarrow> ('t, 'e, 'm, 'f) args \<Rightarrow> ('e, 'm, 'f) locals \<Rightarrow>
   error + ('e, 'm, 'f) dict" where
  "finish r a l =
     (let output_dict = (if get_scores a
                         then setitem (lc_output_dict l) ''top_span_indices''
                                (lc_top_span_indices l)
                         else lc_output_dict l)
      in
     andthen (case span_labels a of
                None \<Rightarrow> Inr output_dict
              | Some labels \<Rightarrow>
                  andthen (marginal_loss r l labels (metadata_in a))
                    (\<lambda>nll. Inr (setitem output_dict ''loss'' (Scalar nll))))
       (\<lambda>output_dict.
          Inr (case metadata_in a of
                 None \<Rightarrow> output_dict
               | Some md \<Rightarrow> setitem output_dict ''document'' (Docs (map original_text md)))))"

text \<open>
  \<^verbatim>\<open>forward\<close> (lines 147-341): the branch on \<^verbatim>\<open>top_spans_info\<close> (line 148), the
  branch on \<^verbatim>\<open>coref_scores_info\<close> (line 147) with the two early returns, and the common
  end.
\<close>

definition prune ::
  "('t, 'e, 'm, 'f) resolver \<Rightarrow> ('t, 'e, 'm, 'f) args \<Rightarrow>
   error + (('e, 'm, 'f) dict + ('e, 'm, 'f) pruning)" where
  "prune r a =
     (case given (top_spans_info a) of
        None \<Rightarrow> prune_fresh r a
      | Some info \<Rightarrow> andthen (prune_from_info info (spans a)) (\<lambda>p. Inr (Inr p)))"

definition run_branches ::
  "('t, 'e, 'm, 'f) resolver \<Rightarrow> ('t, 'e, 'm, 'f) args \<Rightarrow>
   error + (('e, 'm, 'f) dict + ('e, 'm, 'f) locals)" where
  "run_branches r a =
     (case given (coref_scores_info a) of
        None \<Rightarrow>
          andthen (prune r a)
            (\<lambda>pruned. case pruned of
               Inl output_dict \<Rightarrow> Inr (Inl output_dict)
             | Inr p \<Rightarrow> score_spans r a p)
      | Some info \<Rightarrow> andthen (decode_from_info info) (\<lambda>l. Inr (Inr l)))"

definition forward ::
  "('t, 'e, 'm, 'f) resolver \<Rightarrow> ('t, 'e, 'm, 'f) args \<Rightarrow> error + ('e, 'm, 'f) dict" where
  "forward r a =
     andthen (run_branches r a)
       (\<lambda>reached. case reached of
          Inl returned_early \<Rightarrow> Inr returned_early
        | Inr l \<Rightarrow> finish r a l)"

section \<open>The mention pruner\<close>

text \<open>
  Modelled from the spec: the mention pruner (\<^verbatim>\<open>models/pruner.py\<close> of this repository)
  is not among the sources. Section 4.1: one score per candidate from the scorer, invalid
  candidates masked to minus infinity; the K highest-scoring valid candidates are selected,
  K clamped to the number of valid candidates, ties going to the lower original index; the
  selection is returned in ascending order of original index, with its embeddings, its
  validity mask, its indices and its scores.
\<close>

definition pruner_score :: "('e \<Rightarrow> real) \<Rightarrow> 'e list list \<Rightarrow> bool list list \<Rightarrow> xreal list list" where
  "pruner_score scorer embeddings validity =
     map (\<lambda>(es, vs). map (\<lambda>(e, v). if v then Fin (scorer e) else NegInf) (zip es vs))
         (zip embeddings validity)"

fun insert_by_score :: "(nat \<Rightarrow> xreal) \<Rightarrow> nat \<Rightarrow> nat list \<Rightarrow> nat list" where
  "insert_by_score s x [] = [x]"
| "insert_by_score s x (y # ys) =
     (if xless (s x) (s y) then y # insert_by_score s x ys else x # y # ys)"

definition rank_by_score :: "xreal list \<Rightarrow> nat list \<Rightarrow> nat list" where
  "rank_by_score scores candidates = foldr (insert_by_score (\<lambda>i. scores ! i)) candidates []"

definition gather_kept ::
  "'e list \<Rightarrow> bool list \<Rightarrow> xreal list \<Rightarrow> nat list \<Rightarrow> 'e list \<times> bool list \<times> int list \<times> xreal list" where
  "gather_kept embeddings validity scores kept =
     (map (nth embeddings) kept, map (nth validity) kept, map int kept, map (nth scores) kept)"

definition select_document ::
  "nat \<Rightarrow> 'e list \<Rightarrow> bool list \<Rightarrow> xreal list \<Rightarrow> 'e list \<times> bool list \<times> int list \<times> xreal list" where
  "select_document k embeddings validity scores =
     (let valid = filter (nth validity) [0..<length validity];
          kept = sort (take (min k (length valid)) (rank_by_score scores valid))
      in gather_kept embeddings validity scores kept)"

definition unzip4 ::
  "('a \<times> 'b \<times> 'c \<times> 'd) list \<Rightarrow> 'a list \<times> 'b list \<times> 'c list \<times> 'd list" where
  "unzip4 rows =
     (map fst rows, map (fst \<circ> snd) rows, map (fst \<circ> snd \<circ> snd) rows,
      map (snd \<circ> snd \<circ> snd) rows)"

definition pruner_select ::
  "'e list list \<Rightarrow> bool list list \<Rightarrow> nat \<Rightarrow> xreal list list \<Rightarrow>
   error + ('e list list \<times> bool list list \<times> int list list \<times> xreal list list)" where
  "pruner_select embeddings validity k scores =
     Inr (unzip4 (map (\<lambda>(es, vs, ss). select_document k es vs ss)
                      (zip embeddings (zip validity scores))))"

text \<open>
  The selection without the clamp, which the comment at lines 160-166 of \<^verbatim>\<open>forward\<close>
  describes ("it is possible we might consider a masked span"): exactly K candidates are
  returned, invalid ones (at minus infinity) once the valid ones have run out; asking for
  more than there are candidates raises.
\<close>

definition select_document_exact ::
  "nat \<Rightarrow> 'e list \<Rightarrow> bool list \<Rightarrow> xreal list \<Rightarrow>
   error + ('e list \<times> bool list \<times> int list \<times> xreal list)" where
  "select_document_exact k embeddings validity scores =
     (if length validity < k then Inl RuntimeError
      else (let masked = map (\<lambda>(s, v). if v then s else NegInf) (zip scores validity);
                kept = sort (take k (rank_by_score masked [0..<length validity]))
            in Inr (gather_kept embeddings validity scores kept)))"

definition pruner_select_exact ::
  "'e list list \<Rightarrow> bool list list \<Rightarrow> nat \<Rightarrow> xreal list list \<Rightarrow>
   error + ('e list list \<times> bool list list \<times> int list list \<times> xreal list list)" where
  "pruner_select_exact embeddings validity k scores =
     andthen (mapM (\<lambda>(es, vs, ss). select_document_exact k es vs ss)
                   (zip embeddings (zip validity scores)))
       (\<lambda>rows. Inr (unzip4 rows))"

section \<open>A concrete resolver\<close>

text \<open>
  A small resolver on which \<^verbatim>\<open>forward\<close> can be evaluated: the text is its length, the
  embedding of a span is the span, a span's mention score is its width, a pair scores the
  negated offset unless both spans start at the same token, and the floating-point
  routines are stand-ins over the reals. Half a span per word is kept and two antecedents
  are considered.
\<close>

definition demo_scorer :: "span \<Rightarrow> real" where
  "demo_scorer s = real_of_int (snd s - fst s)"

definition demo_pair_scorer :: "span \<times> span \<times> int \<Rightarrow> real" where
  "demo_pair_scorer p =
     (case p of (s, c, off) \<Rightarrow> if fst s = fst c then 5 else - real_of_int off)"

definition demo_resolver ::
  "(span list list \<Rightarrow> bool list list \<Rightarrow> nat \<Rightarrow> xreal list list \<Rightarrow>
    error + (span list list \<times> bool list list \<times> int list list \<times> xreal list list)) \<Rightarrow>
   (nat, span, unit, real) resolver" where
  "demo_resolver select =
     \<lparr>self_spans_per_word = 1 / 2,
      self_max_antecedents = 2,
      document_length_of = (\<lambda>n. n),
      get_text_field_mask = (\<lambda>n. ()),
      span_embeddings_of = (\<lambda>n m t. t),
      mention_pruner_scores = (\<lambda>embeddings validity n. pruner_score demo_scorer embeddings validity),
      mention_pruner_select = select,
      antecedent_scorer = demo_pair_scorer,
      update_metrics = (\<lambda>top_spans indices predicted md. None),
      masked_log_softmax = (\<lambda>scores validity.
         map (map (map (\<lambda>x. case x of NegInf \<Rightarrow> - 100 | Fin v \<Rightarrow> v))) scores),
      log_of_label = (\<lambda>g. if g then 0 else - 100),
      float_add = (\<lambda>x y. x + y),
      logsumexp = (\<lambda>xs. foldr max xs (- 100)),
      negated_sum = (\<lambda>rows. - sum_list (map sum_list rows))\<rparr>"

definition demo_args :: "nat \<Rightarrow> span list list \<Rightarrow> (nat, span, unit, real) args" where
  "demo_args n t =
     \<lparr>text_in = n, spans = t, span_labels = None, metadata_in = None, get_scores = False,
      top_spans_info = None, coref_scores_info = None, return_mention_scores = False,
      return_coref_scores = False\<rparr>"

section \<open>What the claims speak of\<close>

text \<open>
  The argmax convention of the spec, in its words: slot \<open>k\<close> is a maximum of the row and
  every earlier slot is strictly smaller (ties go to the lowest slot index). A predicted
  antecedent \<open>v\<close> is decoded from a row when \<open>v + 1\<close> is that slot: slot 0 gives -1 and
  slot j > 0 gives j - 1.
\<close>

definition is_first_max :: "xreal list \<Rightarrow> nat \<Rightarrow> bool" where
  "is_first_max row k =
     (k < length row \<and> list_all (\<lambda>x. \<not> xless (row ! k) x) row \<and>
      list_all (\<lambda>x. xless x (row ! k)) (take k row))"

definition decoded_from :: "xreal list \<Rightarrow> int \<Rightarrow> bool" where
  "decoded_from row v = (- 1 \<le> v \<and> is_first_max row (nat (v + 1)))"

text \<open>A document of four tokens with three candidate spans and one padding span.\<close>

definition demo_document :: "(nat, span, unit, real) args" where
  "demo_document = demo_args 4 [[(0, 0), (1, 3), (1, 1), (- 1, - 1)]]"


text \<open>
  A call completes prediction when it takes neither early return (lines 187-190 and
  282-285).
\<close>

definition completes_prediction ::
  "('t, 'e, 'm, 'f) resolver \<Rightarrow> ('t, 'e, 'm, 'f) args \<Rightarrow> bool" where
  "completes_prediction r a =
     (case run_branches r a of Inr (Inr l) \<Rightarrow> True | _ \<Rightarrow> False)"

text \<open>
  The output dictionary inside a supplied scoring state has no \<^verbatim>\<open>loss\<close> entry of its
  own, as no state that \<^verbatim>\<open>forward\<close> returns has: line 285 returns before the loss.
\<close>

definition carries_no_loss :: "('t, 'e, 'm, 'f) args \<Rightarrow> bool" where
  "carries_no_loss a =
     (case given (coref_scores_info a) of
        None \<Rightarrow> True
      | Some info \<Rightarrow>
          (case map_of info ''output_dict'' of
             Some (Dict d) \<Rightarrow> map_of d ''loss'' = None
           | _ \<Rightarrow> True))"

text \<open>
  The antecedent window a caller sees: the entry \<^verbatim>\<open>antecedent_indices\<close> of the output
  dictionary, which a returned state carries under \<^verbatim>\<open>output_dict\<close>.
\<close>

definition antecedent_window_of :: "('e, 'm, 'f) dict \<Rightarrow> ('e, 'm, 'f) val option" where
  "antecedent_window_of out =
     (case map_of out ''output_dict'' of
        Some (Dict d) \<Rightarrow> map_of d ''antecedent_indices''
      | _ \<Rightarrow> map_of out ''antecedent_indices'')"


text \<open>
  A document of six tokens with two candidate spans and one padding span: three spans are
  to be kept.
\<close>

definition demo_padded :: "(nat, span, unit, real) args" where
  "demo_padded = demo_args 6 [[(0, 0), (1, 3), (- 1, - 1)]]"

text \<open>
  A score matrix keeps to the history of each span when, in the row of the kept span at
  position \<open>i\<close>, every slot after slot \<open>i\<close> is strictly below slot 0: the slots of
  candidates that do not precede the span cannot win. The matrices that \<^verbatim>\<open>forward\<close>
  computes are such (those slots are at minus infinity); a supplied scoring state is
  well-formed when its matrix is.
\<close>

definition history_masked :: "xreal list list list \<Rightarrow> bool" where
  "history_masked scores =
     list_all (\<lambda>document.
        list_all (\<lambda>(i, row). list_all (\<lambda>x. xless x (hd row)) (drop (Suc i) row))
                 (enumerate 0 document))
       scores"

definition supplied_scores_keep_history :: "('t, 'e, 'm, 'f) args \<Rightarrow> bool" where
  "supplied_scores_keep_history a =
     (case given (coref_scores_info a) of
        None \<Rightarrow> True
      | Some info \<Rightarrow>
          (case map_of info ''output_dict'' of
             Some (Dict d) \<Rightarrow>
               (case map_of d ''coreference_scores'' of
                  Some (Float3 scores) \<Rightarrow> history_masked scores
                | _ \<Rightarrow> True)
           | _ \<Rightarrow> True))"

text \<open>
  Position \<open>i\<close> of a document holds a predicted antecedent within its history: the value
  is -1 or names one of the \<open>i\<close> earlier positions.
\<close>

definition within_history :: "int list list \<Rightarrow> bool" where
  "within_history predicted =
     list_all (\<lambda>document. list_all (\<lambda>(i, v). - 1 \<le> v \<and> v < int i) (enumerate 0 document))
       predicted"

text \<open>
  A predicted antecedent \<open>v\<close> that is not -1, at position \<open>i\<close>, lies inside the window
  and the window names position \<open>i - 1 - v\<close> there: an earlier kept span.
\<close>

definition names_earlier_spans :: "int list list \<Rightarrow> int list list \<Rightarrow> bool" where
  "names_earlier_spans window predicted =
     list_all (\<lambda>document.
        list_all (\<lambda>(i, v). v < 0 \<or>
                    (v < int (length (window ! i)) \<and> window ! i ! nat v = int i - 1 - v))
                 (enumerate 0 document))
       predicted"

text \<open>
  A gold label is a cluster id or the sentinel -1, held in a signed 64-bit tensor; the
  largest 64-bit integer is not used as an id. A relabelling \<open>f\<close> of the labels of a
  batch keeps the partition when it is injective on the labels that occur, keeps them in
  that range and sends exactly the sentinel to the sentinel.
\<close>

definition cluster_id :: "int \<Rightarrow> bool" where
  "cluster_id l = (- 1 \<le> l \<and> l < 2 ^ 63 - 1)"

definition keeps_partition :: "(int \<Rightarrow> int) \<Rightarrow> int list list \<Rightarrow> bool" where
  "keeps_partition f labels =
     (inj_on f (set (concat labels)) \<and>
      list_all (list_all (\<lambda>l. cluster_id l \<and> cluster_id (f l) \<and> (f l = - 1) = (l = - 1)))
        labels)"

text \<open>
  The antecedent log-mask inside a supplied scoring state is a log-mask: each entry is 0
  or minus infinity, as in every mask that \<^verbatim>\<open>forward\<close> builds.
\<close>

definition is_log_mask :: "xreal list list \<Rightarrow> bool" where
  "is_log_mask lm = list_all (list_all (\<lambda>m. m = Fin 0 \<or> m = NegInf)) lm"

definition supplied_log_mask_is_mask :: "('t, 'e, 'm, 'f) args \<Rightarrow> bool" where
  "supplied_log_mask_is_mask a =
     (case given (coref_scores_info a) of
        None \<Rightarrow> True
      | Some info \<Rightarrow>
          (case map_of info ''valid_antecedent_log_mask'' of
             Some (Float2 lm) \<Rightarrow> is_log_mask lm
           | _ \<Rightarrow> True))"

text \<open>The relabelling of the spec's example: cluster ids 1, 1, 2 become 7, 7, 3.\<close>

definition demo_relabel :: "int \<Rightarrow> int" where
  "demo_relabel l = (if l = 1 then 7 else if l = 2 then 3 else l)"

text \<open>
  The pruning state that the fresh path itself computes, under the keys that lines 209-217
  read: mention scores, top scores, span indices, flattened top indices, top-span mask,
  span embeddings and text mask.
\<close>

definition pruning_state_of :: "('e, 'm, 'f) pruning \<Rightarrow> ('e, 'm, 'f) dict" where
  "pruning_state_of p =
     [(''mention_scores'', pr_span_mention_scores p),
      (''top_scores'', Float2 (pr_top_span_mention_scores p)),
      (''span_indices'', Long2 (pr_top_span_indices p)),
      (''flat_top_indices'', Long1 (pr_flat_top_span_indices p)),
      (''top_mask'', Mask2 (pr_top_span_mask p)),
      (''span_embeddings'', Embeds (pr_span_embeddings p)),
      (''text_mask'', TextMask (pr_text_mask p))]"

text \<open>
  The call of the claim: \<^verbatim>\<open>forward\<close> on the same input, supplied through
  \<^verbatim>\<open>top_spans_info\<close> with the pruning state of the fresh path.
\<close>

definition forward_from_own_pruning ::
  "('t, 'e, 'm, 'f) resolver \<Rightarrow> ('t, 'e, 'm, 'f) args \<Rightarrow> error + ('e, 'm, 'f) dict" where
  "forward_from_own_pruning r a =
     (case prune_fresh r a of
        Inl e \<Rightarrow> Inl e
      | Inr (Inl output_dict) \<Rightarrow> Inr output_dict
      | Inr (Inr p) \<Rightarrow> forward r (a\<lparr>top_spans_info := Some (pruning_state_of p)\<rparr>))"

text \<open>
  The pruner returns the embeddings of the spans it names, and as many scores per document
  as it was asked to keep.
\<close>

definition pruner_coherent :: "('e, 'm, 'f) pruning \<Rightarrow> bool" where
  "pruner_coherent p =
     (batched_index_select (pr_span_embeddings p) (pr_top_span_indices p)
        (pr_flat_top_span_indices p) = Inr (pr_top_span_embeddings p) \<and>
      size1 (pr_top_span_mention_scores p) = pr_num_spans_to_keep p)"

section \<open>The caller's tensor\<close>




section \<open>Results in the error monad\<close>

lemma andthen_Inr: "andthen r f = Inr y \<longleftrightarrow> (\<exists>x. r = Inr x \<and> f x = Inr y)"
  by (cases r) (simp_all add: andthen_def)

lemma mapM_Inr_D: "mapM f xs = Inr ys \<Longrightarrow> list_all2 (\<lambda>x y. f x = Inr y) xs ys"
  by (induction xs arbitrary: ys) (auto split: sum.splits)

lemma mapM_Inr_I: "list_all2 (\<lambda>x y. f x = Inr y) xs ys \<Longrightarrow> mapM f xs = Inr ys"
  by (induction xs ys rule: list_all2_induct) auto

lemma mapM_Inr: "mapM f xs = Inr ys \<longleftrightarrow> list_all2 (\<lambda>x y. f x = Inr y) xs ys"
  using mapM_Inr_D mapM_Inr_I by blast

lemma map2M_Inr:
  "map2M f xs ys = Inr zs \<longleftrightarrow>
     length xs = length ys \<and> list_all2 (\<lambda>p z. f (fst p) (snd p) = Inr z) (zip xs ys) zs"
  by (simp add: map2M_def mapM_Inr case_prod_beta)

lemma xless_irrefl: "\<not> xless a a"
  by (cases a) simp_all

lemma xless_trans: "xless a b \<Longrightarrow> xless b c \<Longrightarrow> xless a c"
  by (cases a; cases b; cases c) simp_all

lemma xless_below: "\<not> xless b a \<Longrightarrow> xless b c \<Longrightarrow> xless a c"
  by (cases a; cases b; cases c) simp_all

lemma xless_above: "\<not> xless b a \<Longrightarrow> xless b c \<Longrightarrow> \<not> xless c a"
  by (cases a; cases b; cases c) simp_all

lemma argmax_from_first_max:
  "is_first_max pre k \<Longrightarrow> length pre = i \<Longrightarrow> pre ! k = best \<Longrightarrow>
   is_first_max (pre @ xs) (argmax_from best k i xs)"
proof (induction xs arbitrary: pre k i best)
  case Nil
  then show ?case by simp
next
  case (Cons x xs)
  have k: "k < length pre" using Cons.prems(1) by (simp add: is_first_max_def)
  show ?case
  proof (cases "xless best x")
    case True
    have "is_first_max (pre @ [x]) i"
      using Cons.prems True k
      by (auto simp: is_first_max_def list_all_iff nth_append xless_irrefl
               intro: xless_below dest: xless_above)
    moreover have "(pre @ [x]) ! i = x" using Cons.prems(2) by (simp add: nth_append)
    ultimately have "is_first_max ((pre @ [x]) @ xs) (argmax_from x i (Suc i) xs)"
      using Cons.prems(2) by (intro Cons.IH) simp_all
    with True show ?thesis by simp
  next
    case False
    have "is_first_max (pre @ [x]) k"
      using Cons.prems False k
      by (auto simp: is_first_max_def list_all_iff nth_append)
    moreover have "(pre @ [x]) ! k = best" using Cons.prems(3) k by (simp add: nth_append)
    ultimately have "is_first_max ((pre @ [x]) @ xs) (argmax_from best k (Suc i) xs)"
      using Cons.prems(2) by (intro Cons.IH) simp_all
    with False show ?thesis by simp
  qed
qed

lemma argmax_first_max: "argmax row = Inr k \<Longrightarrow> is_first_max row k"
proof (cases row)
  case Nil
  assume "argmax row = Inr k"
  with Nil show ?thesis by (simp add: argmax_def)
next
  case (Cons x xs)
  assume "argmax row = Inr k"
  with Cons have k: "k = argmax_from x 0 1 xs" by (simp add: argmax_def)
  have "is_first_max [x] 0" by (simp add: is_first_max_def xless_irrefl)
  from argmax_from_first_max [OF this, of 1 x xs] show ?thesis
    using Cons k by simp
qed

lemma predict_antecedents_decoded:
  "predict_antecedents scores = Inr predicted \<Longrightarrow>
   list_all2 (list_all2 decoded_from) scores predicted"
  by (auto simp: predict_antecedents_def mapM_Inr decoded_from_def list_all2_map2
           split: sum.splits
           elim!: list_all2_mono dest: argmax_first_max)


lemma map_of_setitem: "map_of (setitem d k v) k' = (if k' = k then Some v else map_of d k')"
  by (simp add: setitem_def update_conv')

lemma getitem_Inr: "getitem d k = Inr v \<longleftrightarrow> map_of d k = Some v"
  by (simp add: getitem_def split: option.splits)

lemma score_spans_cases:
  assumes "score_spans r a p = Inr (Inr l)"
  obtains top_spans candidate_embeddings candidate_scores pairs vai offs lm where
    "generate_valid_antecedents (pr_num_spans_to_keep p)
       (min (self_max_antecedents r) (pr_num_spans_to_keep p)) = (vai, offs, lm)"
    "batched_index_select (pr_spans p) (pr_top_span_indices p) (pr_flat_top_span_indices p) =
       Inr top_spans"
    "flattened_index_select (pr_top_span_embeddings p) vai = Inr candidate_embeddings"
    "flattened_index_select (pr_top_span_mention_scores p) vai = Inr candidate_scores"
    "compute_span_pair_embeddings (pr_top_span_embeddings p) candidate_embeddings offs = Inr pairs"
    "compute_coreference_scores (antecedent_scorer r) pairs (pr_top_span_mention_scores p)
       candidate_scores lm = Inr (lc_coreference_scores l)"
    "predict_antecedents (lc_coreference_scores l) = Inr (lc_predicted_antecedents l)"
    "\<not> return_coref_scores a"
    "lc_output_dict l =
       (if get_scores a
        then setitem [(''top_spans'', Spans top_spans), (''antecedent_indices'', Long2 vai),
                      (''predicted_antecedents'', Long2 (lc_predicted_antecedents l))]
               ''coreference_scores'' (Float3 (lc_coreference_scores l))
        else [(''top_spans'', Spans top_spans), (''antecedent_indices'', Long2 vai),
              (''predicted_antecedents'', Long2 (lc_predicted_antecedents l))])"
    "lc_top_span_indices l = Long2 (pr_top_span_indices p)"
    "lc_flat_top_span_indices l = Long1 (pr_flat_top_span_indices p)"
    "lc_top_span_mask l = Mask2 (pr_top_span_mask p)"
    "lc_valid_antecedent_log_mask l = Float2 lm"
    "lc_top_spans l = top_spans"
    "lc_valid_antecedent_indices l = vai"
proof -
  obtain vai offs lm where g:
    "generate_valid_antecedents (pr_num_spans_to_keep p)
       (min (self_max_antecedents r) (pr_num_spans_to_keep p)) = (vai, offs, lm)"
    by (metis prod_cases3)
  from assms show thesis
    unfolding score_spans_def andthen_Inr Let_def g prod.case
    by (elim exE conjE) (rule that [OF g], auto split: if_splits)
qed

lemma score_spans_locals:
  assumes "score_spans r a p = Inr (Inr l)"
  shows "predict_antecedents (lc_coreference_scores l) = Inr (lc_predicted_antecedents l)"
    and "map_of (lc_output_dict l) ''predicted_antecedents'' =
           Some (Long2 (lc_predicted_antecedents l))"
    and "map_of (lc_output_dict l) ''coreference_scores'' =
           (if get_scores a then Some (Float3 (lc_coreference_scores l)) else None)"
    and "map_of (lc_output_dict l) ''loss'' = None"
  using assms by (auto elim!: score_spans_cases simp: map_of_setitem)

lemma decode_from_info_locals:
  assumes "decode_from_info info = Inr l"
  shows "predict_antecedents (lc_coreference_scores l) = Inr (lc_predicted_antecedents l)"
    and "map_of (lc_output_dict l) ''predicted_antecedents'' =
           Some (Long2 (lc_predicted_antecedents l))"
    and "map_of (lc_output_dict l) ''coreference_scores'' =
           Some (Float3 (lc_coreference_scores l))"
  using assms
  by (auto simp: decode_from_info_def andthen_Inr map_of_setitem getitem_Inr
           elim!: as_float3.elims)

lemma run_branches_cases:
  assumes "run_branches r a = Inr (Inr l)"
  obtains p where "given (coref_scores_info a) = None" "prune r a = Inr (Inr p)"
      "score_spans r a p = Inr (Inr l)"
    | info where "given (coref_scores_info a) = Some info" "decode_from_info info = Inr l"
proof (cases "given (coref_scores_info a)")
  case None
  with assms obtain pruned where pr: "prune r a = Inr pruned"
    and sc: "(case pruned of Inl d \<Rightarrow> Inr (Inl d) | Inr p \<Rightarrow> score_spans r a p) = Inr (Inr l)"
    by (auto simp: run_branches_def andthen_Inr)
  then show ?thesis
    using None that(1) by (cases pruned) auto
next
  case (Some info)
  with assms show ?thesis
    using that(2) by (auto simp: run_branches_def andthen_Inr)
qed

lemma run_branches_locals:
  assumes "run_branches r a = Inr (Inr l)"
  shows "predict_antecedents (lc_coreference_scores l) = Inr (lc_predicted_antecedents l)"
    and "map_of (lc_output_dict l) ''predicted_antecedents'' =
           Some (Long2 (lc_predicted_antecedents l))"
    and "map_of (lc_output_dict l) ''coreference_scores'' =
           (if get_scores a \<or> given (coref_scores_info a) \<noteq> None
            then Some (Float3 (lc_coreference_scores l)) else None)"
  using assms
  by (auto elim!: run_branches_cases dest: score_spans_locals decode_from_info_locals)

lemma finish_keeps:
  assumes "finish r a l = Inr out"
    and "k \<noteq> ''top_span_indices''" and "k \<noteq> ''loss''" and "k \<noteq> ''document''"
  shows "map_of out k = map_of (lc_output_dict l) k"
  using assms
  by (auto simp: finish_def andthen_Inr Let_def map_of_setitem
           split: option.splits if_splits)

lemma forward_finish:
  "run_branches r a = Inr (Inr l) \<Longrightarrow> forward r a = finish r a l"
  by (simp add: forward_def andthen_def)


lemma demo_run: "run_branches (demo_resolver pruner_select) demo_document =
  Inr (Inr \<lparr>lc_output_dict = [(''top_spans'', Spans [[(0, 0), (1, 3)]]),
      (''antecedent_indices'', Long2 [[0, 0], [0, 0]]),
      (''predicted_antecedents'', Long2 [[- 1, 0]])],
      lc_top_span_indices = Long2 [[0, 1]], lc_flat_top_span_indices = Long1 [0, 1],
      lc_top_span_mask = Mask2 [[True, True]],
      lc_valid_antecedent_log_mask = Float2 [[NegInf, NegInf], [Fin 0, NegInf]],
      lc_top_spans = [[(0, 0), (1, 3)]], lc_valid_antecedent_indices = [[0, 0], [0, 0]],
      lc_coreference_scores = [[[Fin 0, NegInf, NegInf], [Fin 0, Fin 1, NegInf]]],
      lc_predicted_antecedents = [[- 1, 0]]\<rparr>)"
  by code_simp

lemma demo_forward: "forward (demo_resolver pruner_select) demo_document =
  Inr [(''top_spans'', Spans [[(0, 0), (1, 3)]]),
      (''antecedent_indices'', Long2 [[0, 0], [0, 0]]),
      (''predicted_antecedents'', Long2 [[- 1, 0]])]"
  by code_simp



section \<open>The returned state and the loss entry\<close>


lemma given_Some: "given d = Some m \<Longrightarrow> d = Some m"
  by (auto simp: given_def split: option.splits list.splits)

lemma prune_fresh_early_no_loss:
  "prune_fresh r a = Inr (Inl d) \<Longrightarrow> map_of d ''loss'' = None"
  by (auto simp: prune_fresh_def Let_def split: if_splits sum.splits prod.splits)

lemma prune_early_no_loss: "prune r a = Inr (Inl d) \<Longrightarrow> map_of d ''loss'' = None"
  by (auto simp: prune_def andthen_Inr dest: prune_fresh_early_no_loss split: option.splits)

lemma score_spans_early_no_loss:
  assumes "score_spans r a p = Inr (Inl d)"
  shows "map_of d ''loss'' = None"
proof -
  obtain vai offs lm where g:
    "generate_valid_antecedents (pr_num_spans_to_keep p)
       (min (self_max_antecedents r) (pr_num_spans_to_keep p)) = (vai, offs, lm)"
    by (metis prod_cases3)
  from assms show ?thesis
    unfolding score_spans_def andthen_Inr Let_def g prod.case
    by (auto split: if_splits)
qed

lemma run_branches_early_no_loss:
  assumes "run_branches r a = Inr (Inl d)"
  shows "map_of d ''loss'' = None"
proof (cases "given (coref_scores_info a)")
  case None
  with assms obtain pruned where pr: "prune r a = Inr pruned"
    and sc: "(case pruned of Inl d \<Rightarrow> Inr (Inl d) | Inr p \<Rightarrow> score_spans r a p) = Inr (Inl d)"
    by (auto simp: run_branches_def andthen_Inr)
  then show ?thesis
    by (cases pruned) (auto dest: prune_early_no_loss score_spans_early_no_loss)
next
  case (Some info)
  with assms show ?thesis
    by (auto simp: run_branches_def andthen_Inr)
qed

lemma decode_from_info_loss:
  assumes "decode_from_info info = Inr l"
  shows "\<exists>d. map_of info ''output_dict'' = Some (Dict d) \<and>
             map_of (lc_output_dict l) ''loss'' = map_of d ''loss''"
  using assms
  by (auto simp: decode_from_info_def andthen_Inr map_of_setitem getitem_Inr
           elim!: as_dict.elims)

lemma finish_loss:
  assumes "finish r a l = Inr out"
  shows "map_of out ''loss'' =
           (case span_labels a of
              None \<Rightarrow> map_of (lc_output_dict l) ''loss''
            | Some labels \<Rightarrow>
                (case marginal_loss r l labels (metadata_in a) of
                   Inr nll \<Rightarrow> Some (Scalar nll) | Inl e \<Rightarrow> None))"
  using assms
  by (auto simp: finish_def andthen_Inr Let_def map_of_setitem
           split: option.splits if_splits)

lemma finish_loss_present:
  assumes "finish r a l = Inr out" and "span_labels a = Some labels"
  shows "map_of out ''loss'' \<noteq> None"
  using assms
  by (auto simp: finish_def andthen_Inr Let_def map_of_setitem
           split: option.splits if_splits)

text \<open>
  C8. The output of a forward call has a \<^verbatim>\<open>loss\<close> entry exactly when gold labels are
  supplied and the call completes prediction: without labels no loss is computed, an early
  return carries none, and with labels a completed call always carries one. (A supplied
  scoring state is taken to hold an output dictionary without a loss entry, as every state
  that forward returns does.)
\<close>

theorem loss_entry_iff_labels_and_completion:
  assumes "forward r a = Inr out" and "carries_no_loss a"
  shows "(map_of out ''loss'' \<noteq> None) = (span_labels a \<noteq> None \<and> completes_prediction r a)"
proof -
  from assms(1) obtain reached where rb: "run_branches r a = Inr reached"
    and fin: "(case reached of Inl early \<Rightarrow> Inr early | Inr l \<Rightarrow> finish r a l) = Inr out"
    by (auto simp: forward_def andthen_Inr)
  show ?thesis
  proof (cases reached)
    case (Inl early)
    with rb fin show ?thesis
      by (auto simp: completes_prediction_def dest: run_branches_early_no_loss)
  next
    case (Inr l)
    with fin have f: "finish r a l = Inr out" by simp
    have c: "completes_prediction r a"
      using rb Inr by (simp add: completes_prediction_def)
    have rb': "run_branches r a = Inr (Inr l)"
      using rb Inr by simp
    have base: "map_of (lc_output_dict l) ''loss'' = None"
    proof (rule run_branches_cases [OF rb'])
      fix p
      assume "score_spans r a p = Inr (Inr l)"
      then show ?thesis by (simp add: score_spans_locals)
    next
      fix info
      assume g: "given (coref_scores_info a) = Some info"
        and d: "decode_from_info info = Inr l"
      with assms(2) decode_from_info_loss [OF d] show ?thesis
        by (auto simp: carries_no_loss_def)
    qed
    show ?thesis
    proof (cases "span_labels a")
      case None
      with finish_loss [OF f] base show ?thesis by simp
    next
      case (Some labels)
      with finish_loss_present [OF f] c show ?thesis by simp
    qed
  qed
qed

lemma demo_loss_run: "forward (demo_resolver pruner_select)
      (demo_document\<lparr>span_labels := Some [[1, 1, 1, - 1]]\<rparr>) =
  Inr [(''top_spans'', Spans [[(0, 0), (1, 3)]]),
      (''antecedent_indices'', Long2 [[0, 0], [0, 0]]),
      (''predicted_antecedents'', Long2 [[- 1, 0]]), (''loss'', Scalar (- 1))]"
  by code_simp

theorem loss_entry_iff_labels_and_completion_witness:
  "carries_no_loss (demo_document\<lparr>span_labels := Some [[1, 1, 1, - 1]]\<rparr>) \<and>
   completes_prediction (demo_resolver pruner_select)
     (demo_document\<lparr>span_labels := Some [[1, 1, 1, - 1]]\<rparr>) \<and>
   map_of [(''top_spans'', Spans [[(0, 0), (1, 3)]]),
      (''antecedent_indices'', Long2 [[0, 0], [0, 0]]),
      (''predicted_antecedents'', Long2 [[- 1, 0]]), (''loss'', Scalar (- 1::real))] ''loss'' \<noteq> None"
proof -
  have h: "carries_no_loss (demo_document\<lparr>span_labels := Some [[1, 1, 1, - 1]]\<rparr>)"
    by code_simp
  have c: "completes_prediction (demo_resolver pruner_select)
     (demo_document\<lparr>span_labels := Some [[1, 1, 1, - 1]]\<rparr>)"
    by code_simp
  from loss_entry_iff_labels_and_completion [OF demo_loss_run h] h c show ?thesis by simp
qed

section \<open>The caller's spans\<close>

lemma prune_fresh_spans: "prune_fresh r a = Inr (Inr p) \<Longrightarrow> pr_spans p = relu_spans (spans a)"
  by (auto simp: prune_fresh_def Let_def split: if_splits sum.splits prod.splits)






section \<open>The antecedent window and the score matrix\<close>

lemma generate_valid_antecedents_shape:
  assumes "generate_valid_antecedents K W = (vai, offs, lm)"
  shows "length vai = K" and "length lm = K" and "length offs = W"
    and "i < K \<Longrightarrow> length (vai ! i) = W"
    and "i < K \<Longrightarrow> length (lm ! i) = W"
    and "i < K \<Longrightarrow> j < W \<Longrightarrow> vai ! i ! j = max 0 (int i - (int j + 1))"
    and "i < K \<Longrightarrow> j < W \<Longrightarrow> lm ! i ! j = (if j < i then Fin 0 else NegInf)"
  using assms by (auto simp: generate_valid_antecedents_def Let_def)

lemma xadd_NegInf [simp]: "xadd x NegInf = NegInf"
  by (cases x) simp_all

lemma map2M_length: "map2M f xs ys = Inr zs \<Longrightarrow> length xs = length ys \<and> length zs = length ys"
  by (auto simp: map2M_Inr dest: list_all2_lengthD)

lemma map2M_nth:
  "map2M f xs ys = Inr zs \<Longrightarrow> i < length zs \<Longrightarrow> f (xs ! i) (ys ! i) = Inr (zs ! i)"
  by (auto simp: map2M_Inr list_all2_conv_all_nth)

lemma map2M_pair: "map2M (\<lambda>x y. Inr (x, y)) xs ys = Inr zs \<Longrightarrow> zs = zip xs ys"
  by (auto simp: map2M_Inr list_all2_conv_all_nth intro!: nth_equalityI)

lemma score_row_shape:
  assumes "score_row scorer pairs s ants lm = Inr row"
  shows "\<exists>rest. row = Fin 0 # rest \<and> length rest = length lm \<and>
           (\<forall>j < length lm. lm ! j = NegInf \<longrightarrow> rest ! j = NegInf)"
proof -
  from assms obtain raw rest where
    raw: "map2M (\<lambda>p a. Inr (xadd (xadd (Fin (scorer p)) s) a)) pairs ants = Inr raw"
    and rest: "map2M (\<lambda>x m. Inr (xadd x m)) raw lm = Inr rest"
    and row: "row = Fin 0 # rest"
    by (auto simp: score_row_def andthen_Inr)
  have len: "length rest = length lm"
    using map2M_length [OF rest] by simp
  have "rest ! j = NegInf" if "j < length lm" "lm ! j = NegInf" for j
    using map2M_nth [OF rest, of j] that len by simp
  with row len show ?thesis by blast
qed

lemma score_document_shape:
  assumes "score_document scorer pairs scores ants lm = Inr doc"
  shows "length doc = length lm" and "length scores = length lm"
    and "i < length lm \<Longrightarrow>
           score_row scorer (pairs ! i) (scores ! i) (ants ! i) (lm ! i) = Inr (doc ! i)"
proof -
  from assms obtain left right where
    l: "map2M (\<lambda>p s. Inr (p, s)) pairs scores = Inr left"
    and r: "map2M (\<lambda>a m. Inr (a, m)) ants lm = Inr right"
    and d: "map2M (\<lambda>(prow, s) (arow, mrow). score_row scorer prow s arow mrow) left right = Inr doc"
    by (auto simp: score_document_def andthen_Inr)
  have lz: "left = zip pairs scores" and rz: "right = zip ants lm"
    using map2M_pair [OF l] map2M_pair [OF r] by simp_all
  have len: "length pairs = length scores" "length ants = length lm"
    "length left = length right" "length doc = length right"
    using map2M_length [OF l] map2M_length [OF r] map2M_length [OF d] by simp_all
  show "length doc = length lm" using len rz by simp
  show "length scores = length lm" using len lz rz by simp
  show "score_row scorer (pairs ! i) (scores ! i) (ants ! i) (lm ! i) = Inr (doc ! i)"
    if "i < length lm"
    using map2M_nth [OF d, of i] that len lz rz by simp
qed

lemma compute_coreference_scores_shape:
  assumes "compute_coreference_scores scorer pairs tops ants lm = Inr scores"
  shows "length scores = length tops"
    and "b < length tops \<Longrightarrow>
           score_document scorer (pairs ! b) (tops ! b) (ants ! b) lm = Inr (scores ! b)"
proof -
  from assms obtain docs where
    l: "map2M (\<lambda>p s. Inr (p, s)) pairs tops = Inr docs"
    and d: "map2M (\<lambda>(pairs, scores) antecedents.
                score_document scorer pairs scores antecedents lm) docs ants = Inr scores"
    by (auto simp: compute_coreference_scores_def andthen_Inr)
  have lz: "docs = zip pairs tops" using map2M_pair [OF l] .
  have len: "length pairs = length tops" "length docs = length ants" "length scores = length ants"
    using map2M_length [OF l] map2M_length [OF d] by simp_all
  show "length scores = length tops" using len lz by simp
  show "score_document scorer (pairs ! b) (tops ! b) (ants ! b) lm = Inr (scores ! b)"
    if "b < length tops"
    using map2M_nth [OF d, of b] that len lz by simp
qed

lemma list_all_nthD: "list_all P xs \<Longrightarrow> i < length xs \<Longrightarrow> P (xs ! i)"
  by (simp add: list_all_length)

lemma list_all_nthI: "(\<And>i. i < length xs \<Longrightarrow> P (xs ! i)) \<Longrightarrow> list_all P xs"
  by (simp add: list_all_length)

lemma list_all_enumerate:
  "list_all (\<lambda>(i, x). P i x) (enumerate 0 xs) \<longleftrightarrow> (\<forall>i < length xs. P i (xs ! i))"
  by (auto simp: list_all_length nth_enumerate_eq)

lemma computed_scores_history_masked:
  assumes g: "generate_valid_antecedents K W = (vai, offs, lm)"
    and c: "compute_coreference_scores scorer pairs tops ants lm = Inr scores"
  shows "history_masked scores"
    and "list_all (\<lambda>document. length document = K) scores"
    and "list_all (\<lambda>document. length document = K) tops"
    and "list_all (list_all (\<lambda>row. length row = Suc W)) scores"
proof -
  have K: "length lm = K" using generate_valid_antecedents_shape [OF g] by simp
  {
    fix b assume b: "b < length scores"
    then have bt: "b < length tops"
      using compute_coreference_scores_shape(1) [OF c] by simp
    note d = compute_coreference_scores_shape(2) [OF c bt]
    have dl: "length (scores ! b) = K" "length (tops ! b) = K"
      using score_document_shape(1,2) [OF d] K by simp_all
    {
      fix i assume i: "i < K"
      then have "score_row scorer (pairs ! b ! i) (tops ! b ! i) (ants ! b ! i) (lm ! i) =
                   Inr (scores ! b ! i)"
        using score_document_shape(3) [OF d, of i] K by simp
      from score_row_shape [OF this] obtain rest where
        rest: "scores ! b ! i = Fin 0 # rest" "length rest = length (lm ! i)"
          "\<forall>j < length (lm ! i). lm ! i ! j = NegInf \<longrightarrow> rest ! j = NegInf"
        by blast
      have W: "length (lm ! i) = W"
        using generate_valid_antecedents_shape(5) [OF g i] .
      have "rest ! j = NegInf" if "i \<le> j" "j < W" for j
        using rest(3) W that generate_valid_antecedents_shape(7) [OF g i, of j] by simp
      then have "list_all (\<lambda>x. xless x (Fin 0)) (drop i rest)"
        using rest(2) W by (auto simp: list_all_length)
      with rest W have "list_all (\<lambda>x. xless x (hd (scores ! b ! i))) (drop (Suc i) (scores ! b ! i))
          \<and> length (scores ! b ! i) = Suc W"
        by simp
    }
    note rows = this
    have "list_all (\<lambda>(i, row). list_all (\<lambda>x. xless x (hd row)) (drop (Suc i) row))
             (enumerate 0 (scores ! b))"
      unfolding list_all_enumerate using rows dl by simp
    moreover have "list_all (\<lambda>row. length row = Suc W) (scores ! b)"
      by (rule list_all_nthI) (use rows dl in simp)
    ultimately have "list_all (\<lambda>(i, row). list_all (\<lambda>x. xless x (hd row)) (drop (Suc i) row))
             (enumerate 0 (scores ! b)) \<and> list_all (\<lambda>row. length row = Suc W) (scores ! b)"
      by simp
    note this dl
  }
  note docs = this
  show "history_masked scores"
    unfolding history_masked_def by (rule list_all_nthI) (use docs(1) in simp)
  show "list_all (\<lambda>document. length document = K) scores"
    by (rule list_all_nthI) (use docs(2) in simp)
  show "list_all (\<lambda>document. length document = K) tops"
    by (rule list_all_nthI) (use docs(3) compute_coreference_scores_shape(1) [OF c] in simp)
  show "list_all (list_all (\<lambda>row. length row = Suc W)) scores"
    by (rule list_all_nthI) (use docs(1) in simp)
qed

lemma first_max_within_history:
  assumes "is_first_max row k" and "list_all (\<lambda>x. xless x (hd row)) (drop (Suc i) row)"
  shows "k \<le> i"
proof (rule ccontr)
  assume "\<not> k \<le> i"
  then have ki: "Suc i \<le> k" by simp
  from assms(1) have k: "k < length row" and mx: "list_all (\<lambda>x. \<not> xless (row ! k) x) row"
    by (simp_all add: is_first_max_def)
  from k have ne: "row \<noteq> []" by auto
  have "drop (Suc i) row ! (k - Suc i) = row ! k" "k - Suc i < length (drop (Suc i) row)"
    using ki k by simp_all
  then have "row ! k \<in> set (drop (Suc i) row)"
    by (metis nth_mem)
  with assms(2) have "xless (row ! k) (hd row)"
    by (simp add: list_all_iff)
  moreover have "\<not> xless (row ! k) (hd row)"
    using mx ne by (cases row) (simp_all add: list_all_iff)
  ultimately show False by simp
qed

lemma decoded_within_history:
  assumes "history_masked scores" and "list_all2 (list_all2 decoded_from) scores predicted"
  shows "within_history predicted"
  unfolding within_history_def
proof (rule list_all_nthI)
  fix b assume b: "b < length predicted"
  from assms(2) have lb: "length scores = length predicted"
    and rows: "list_all2 decoded_from (scores ! b) (predicted ! b)"
    using b by (auto simp: list_all2_conv_all_nth)
  have "list_all (\<lambda>(i, row). list_all (\<lambda>x. xless x (hd row)) (drop (Suc i) row))
          (enumerate 0 (scores ! b))"
    using assms(1) b lb unfolding history_masked_def by (auto dest: list_all_nthD)
  then have hm: "\<forall>i < length (scores ! b).
      list_all (\<lambda>x. xless x (hd (scores ! b ! i))) (drop (Suc i) (scores ! b ! i))"
    unfolding list_all_enumerate .
  show "list_all (\<lambda>(i, v). - 1 \<le> v \<and> v < int i) (enumerate 0 (predicted ! b))"
    unfolding list_all_enumerate
  proof (intro allI impI)
    fix i assume i: "i < length (predicted ! b)"
    from rows i have d: "decoded_from (scores ! b ! i) (predicted ! b ! i)"
      and li: "i < length (scores ! b)"
      by (auto simp: list_all2_conv_all_nth)
    from d have lo: "- 1 \<le> predicted ! b ! i"
      and fm: "is_first_max (scores ! b ! i) (nat (predicted ! b ! i + 1))"
      by (simp_all add: decoded_from_def)
    from first_max_within_history [OF fm] hm li have "nat (predicted ! b ! i + 1) \<le> i"
      by simp
    with lo show "- 1 \<le> predicted ! b ! i \<and> predicted ! b ! i < int i" by linarith
  qed
qed


section \<open>The number of kept spans and the width of the window\<close>

lemma score_spans_result:
  assumes "score_spans r a p = Inr reached"
  obtains top_spans candidate_embeddings candidate_scores pairs vai offs lm scores predicted where
    "generate_valid_antecedents (pr_num_spans_to_keep p)
       (min (self_max_antecedents r) (pr_num_spans_to_keep p)) = (vai, offs, lm)"
    "batched_index_select (pr_spans p) (pr_top_span_indices p) (pr_flat_top_span_indices p) =
       Inr top_spans"
    "flattened_index_select (pr_top_span_embeddings p) vai = Inr candidate_embeddings"
    "flattened_index_select (pr_top_span_mention_scores p) vai = Inr candidate_scores"
    "compute_span_pair_embeddings (pr_top_span_embeddings p) candidate_embeddings offs = Inr pairs"
    "compute_coreference_scores (antecedent_scorer r) pairs (pr_top_span_mention_scores p)
       candidate_scores lm = Inr scores"
    "predict_antecedents scores = Inr predicted"
    "reached =
       (let output_dict = [(''top_spans'', Spans top_spans), (''antecedent_indices'', Long2 vai),
                           (''predicted_antecedents'', Long2 predicted)];
            output_dict = (if get_scores a \<or> return_coref_scores a
                           then setitem output_dict ''coreference_scores'' (Float3 scores)
                           else output_dict)
        in if return_coref_scores a then
             Inl [(''output_dict'', Dict output_dict),
                  (''top_span_inds'', PyList [Long2 (pr_top_span_indices p),
                                              Long1 (pr_flat_top_span_indices p)]),
                  (''top_span_mask'', Mask2 (pr_top_span_mask p)),
                  (''ant_mask'', Float2 lm)]
           else
             Inr \<lparr>lc_output_dict = output_dict,
                  lc_top_span_indices = Long2 (pr_top_span_indices p),
                  lc_flat_top_span_indices = Long1 (pr_flat_top_span_indices p),
                  lc_top_span_mask = Mask2 (pr_top_span_mask p),
                  lc_valid_antecedent_log_mask = Float2 lm,
                  lc_top_spans = top_spans,
                  lc_valid_antecedent_indices = vai,
                  lc_coreference_scores = scores,
                  lc_predicted_antecedents = predicted\<rparr>)"
proof -
  obtain vai offs lm where g:
    "generate_valid_antecedents (pr_num_spans_to_keep p)
       (min (self_max_antecedents r) (pr_num_spans_to_keep p)) = (vai, offs, lm)"
    by (metis prod_cases3)
  from assms show thesis
    unfolding score_spans_def andthen_Inr g prod.case Let_def
    by (elim exE conjE) (rule that [OF g], auto simp: Let_def split: if_splits)
qed

lemma prune_num_spans_to_keep:
  assumes "prune r a = Inr (Inr p)"
  shows "pr_num_spans_to_keep p =
           (case given (top_spans_info a) of
              None \<Rightarrow> num_spans_to_keep_of r (text_in a)
            | Some info \<Rightarrow> size1 (pr_top_span_mention_scores p))"
  using assms
  by (auto simp: prune_def prune_fresh_def prune_from_info_def andthen_Inr Let_def
           split: option.splits if_splits sum.splits prod.splits)

lemma forward_after_prune:
  assumes "given (coref_scores_info a) = None" and "prune r a = Inr (Inr p)"
    and "forward r a = Inr out"
  obtains reached where "score_spans r a p = Inr reached"
    and "(case reached of Inl early \<Rightarrow> Inr early | Inr l \<Rightarrow> finish r a l) = Inr out"
  using assms by (auto simp: forward_def run_branches_def andthen_Inr)

lemma window_seen:
  assumes "given (coref_scores_info a) = None" and "prune r a = Inr (Inr p)"
    and "forward r a = Inr out"
  obtains vai offs lm pairs candidate_scores scores where
    "generate_valid_antecedents (pr_num_spans_to_keep p)
       (min (self_max_antecedents r) (pr_num_spans_to_keep p)) = (vai, offs, lm)"
    "compute_coreference_scores (antecedent_scorer r) pairs (pr_top_span_mention_scores p)
       candidate_scores lm = Inr scores"
    "antecedent_window_of out = Some (Long2 vai)"
proof -
  from assms obtain reached where sc: "score_spans r a p = Inr reached"
    and fin: "(case reached of Inl early \<Rightarrow> Inr early | Inr l \<Rightarrow> finish r a l) = Inr out"
    by (rule forward_after_prune)
  from sc show thesis
  proof (rule score_spans_result)
    fix top_spans candidate_embeddings candidate_scores pairs vai offs lm scores predicted
    assume g: "generate_valid_antecedents (pr_num_spans_to_keep p)
       (min (self_max_antecedents r) (pr_num_spans_to_keep p)) = (vai, offs, lm)"
      and c: "compute_coreference_scores (antecedent_scorer r) pairs (pr_top_span_mention_scores p)
       candidate_scores lm = Inr scores"
      and re: "reached =
       (let output_dict = [(''top_spans'', Spans top_spans), (''antecedent_indices'', Long2 vai),
                           (''predicted_antecedents'', Long2 predicted)];
            output_dict = (if get_scores a \<or> return_coref_scores a
                           then setitem output_dict ''coreference_scores'' (Float3 scores)
                           else output_dict)
        in if return_coref_scores a then
             Inl [(''output_dict'', Dict output_dict),
                  (''top_span_inds'', PyList [Long2 (pr_top_span_indices p),
                                              Long1 (pr_flat_top_span_indices p)]),
                  (''top_span_mask'', Mask2 (pr_top_span_mask p)),
                  (''ant_mask'', Float2 lm)]
           else
             Inr \<lparr>lc_output_dict = output_dict,
                  lc_top_span_indices = Long2 (pr_top_span_indices p),
                  lc_flat_top_span_indices = Long1 (pr_flat_top_span_indices p),
                  lc_top_span_mask = Mask2 (pr_top_span_mask p),
                  lc_valid_antecedent_log_mask = Float2 lm,
                  lc_top_spans = top_spans,
                  lc_valid_antecedent_indices = vai,
                  lc_coreference_scores = scores,
                  lc_predicted_antecedents = predicted\<rparr>)"
    have "antecedent_window_of out = Some (Long2 vai)"
    proof (cases "return_coref_scores a")
      case True
      with re fin show ?thesis
        by (auto simp: antecedent_window_of_def Let_def map_of_setitem)
    next
      case False
      with re obtain l where l: "reached = Inr l"
        and od: "map_of (lc_output_dict l) ''antecedent_indices'' = Some (Long2 vai)"
          "map_of (lc_output_dict l) ''output_dict'' = None"
        by (auto simp: Let_def map_of_setitem)
      from fin l have f: "finish r a l = Inr out" by simp
      have "map_of out ''antecedent_indices'' = Some (Long2 vai)"
        using finish_keeps [OF f, of "''antecedent_indices''"] od by simp
      moreover have "map_of out ''output_dict'' = None"
        using finish_keeps [OF f, of "''output_dict''"] od by simp
      ultimately show ?thesis by (simp add: antecedent_window_of_def)
    qed
    with g c show thesis by (rule that)
  qed
qed

text \<open>
  C7. Every forward call that constructs the antecedent window (it is given no scoring
  state and gets past pruning) shows a window of K rows whose every row has exactly
  min(configured max_antecedents, K) columns, never more columns than rows. K is the
  kept-span count: every document holds K kept mention scores, and K is
  \<^verbatim>\<open>num_spans_to_keep\<close>: the floor of line 181 on the fresh path, the second
  dimension of the supplied top scores otherwise.
\<close>

theorem window_width_is_min_of_max_antecedents_and_kept:
  assumes "given (coref_scores_info a) = None" and "prune r a = Inr (Inr p)"
    and "forward r a = Inr out"
  shows "\<exists>window. antecedent_window_of out = Some (Long2 window) \<and>
           length window = pr_num_spans_to_keep p \<and>
           list_all (\<lambda>row. length row =
                       min (self_max_antecedents r) (pr_num_spans_to_keep p)) window \<and>
           min (self_max_antecedents r) (pr_num_spans_to_keep p) \<le> length window \<and>
           list_all (\<lambda>kept. length kept = pr_num_spans_to_keep p)
             (pr_top_span_mention_scores p) \<and>
           pr_num_spans_to_keep p =
             (case given (top_spans_info a) of
                None \<Rightarrow> num_spans_to_keep_of r (text_in a)
              | Some info \<Rightarrow> size1 (pr_top_span_mention_scores p))"
proof -
  from assms obtain vai offs lm pairs candidate_scores scores where
    g: "generate_valid_antecedents (pr_num_spans_to_keep p)
       (min (self_max_antecedents r) (pr_num_spans_to_keep p)) = (vai, offs, lm)"
    and c: "compute_coreference_scores (antecedent_scorer r) pairs (pr_top_span_mention_scores p)
       candidate_scores lm = Inr scores"
    and w: "antecedent_window_of out = Some (Long2 vai)"
    by (rule window_seen)
  have "length vai = pr_num_spans_to_keep p"
    using generate_valid_antecedents_shape(1) [OF g] .
  moreover have "list_all (\<lambda>row. length row =
                       min (self_max_antecedents r) (pr_num_spans_to_keep p)) vai"
    by (rule list_all_nthI) (use generate_valid_antecedents_shape(1,4) [OF g] in simp)
  moreover note computed_scores_history_masked(3) [OF g c] prune_num_spans_to_keep [OF assms(2)] w
  ultimately show ?thesis by simp
qed

lemma demo_prune: "prune (demo_resolver pruner_select) demo_document =
     Inr (Inr \<lparr>pr_span_mention_scores = Float2 [[Fin 0, Fin 2, Fin 0, NegInf]],
               pr_span_embeddings = [[(0, 0), (1, 3), (1, 1), (0, 0)]],
               pr_num_spans_to_keep = 2,
               pr_spans = [[(0, 0), (1, 3), (1, 1), (0, 0)]],
               pr_top_span_embeddings = [[(0, 0), (1, 3)]],
               pr_top_span_mention_scores = [[Fin 0, Fin 2]],
               pr_top_span_indices = [[0, 1]],
               pr_flat_top_span_indices = [0, 1],
               pr_top_span_mask = [[True, True]],
               pr_text_mask = ()\<rparr>)"
  by code_simp

lemma demo_given: "given (coref_scores_info demo_document) = None"
  "given (top_spans_info demo_document) = None"
  by code_simp+

theorem window_width_is_min_of_max_antecedents_and_kept_witness:
  "given (coref_scores_info demo_document) = None \<and>
   (\<exists>window. antecedent_window_of
        [(''top_spans'', Spans [[(0, 0), (1, 3)]]),
         (''antecedent_indices'', Long2 [[0, 0], [0, 0]]),
         (''predicted_antecedents'', Long2 [[- 1, 0]])] =
        (Some (Long2 window) :: (span, unit, real) val option) \<and>
      length window = 2 \<and> list_all (\<lambda>row. length row = min 2 2) window)"
  using window_width_is_min_of_max_antecedents_and_kept [OF demo_given(1) demo_prune demo_forward]
    demo_given(1)
  by (auto simp: demo_resolver_def)

lemma padded_given: "given (coref_scores_info demo_padded) = None"
  "given (top_spans_info demo_padded) = None"
  by code_simp+


lemma padded_forward: "forward (demo_resolver pruner_select_exact) demo_padded =
  Inr [(''top_spans'', Spans [[(0, 0), (1, 3), (0, 0)]]),
       (''antecedent_indices'', Long2 [[0, 0], [0, 0], [1, 0]]),
       (''predicted_antecedents'', Long2 [[- 1, 0, - 1]])]"
  by code_simp





section \<open>Predicted antecedents stay within the history\<close>

lemma decode_from_info_scores:
  assumes "decode_from_info info = Inr l"
  shows "\<exists>d. map_of info ''output_dict'' = Some (Dict d) \<and>
             map_of d ''coreference_scores'' = Some (Float3 (lc_coreference_scores l))"
  using assms
  by (auto simp: decode_from_info_def andthen_Inr getitem_Inr
           elim!: as_dict.elims as_float3.elims)

lemma score_spans_window:
  assumes "score_spans r a p = Inr (Inr l)"
  obtains offs lm pairs candidate_scores where
    "generate_valid_antecedents (pr_num_spans_to_keep p)
       (min (self_max_antecedents r) (pr_num_spans_to_keep p)) =
       (lc_valid_antecedent_indices l, offs, lm)"
    "compute_coreference_scores (antecedent_scorer r) pairs (pr_top_span_mention_scores p)
       candidate_scores lm = Inr (lc_coreference_scores l)"
  using assms by (elim score_spans_cases) auto

lemma decoded_names_earlier:
  assumes g: "generate_valid_antecedents K W = (vai, offs, lm)"
    and rowsK: "list_all (\<lambda>document. length document = K) scores"
    and width: "list_all (list_all (\<lambda>row. length row = Suc W)) scores"
    and dec: "list_all2 (list_all2 decoded_from) scores predicted"
    and hist: "within_history predicted"
  shows "names_earlier_spans vai predicted"
  unfolding names_earlier_spans_def
proof (rule list_all_nthI)
  fix b assume b: "b < length predicted"
  from dec b have bs: "b < length scores"
    and rows: "list_all2 decoded_from (scores ! b) (predicted ! b)"
    by (auto simp: list_all2_conv_all_nth)
  have lenK: "length (scores ! b) = K"
    using list_all_nthD [OF rowsK bs] .
  have hb: "list_all (\<lambda>(i, v). - 1 \<le> v \<and> v < int i) (enumerate 0 (predicted ! b))"
    using list_all_nthD [OF hist [unfolded within_history_def] b] .
  show "list_all (\<lambda>(i, v). v < 0 \<or> (v < int (length (vai ! i)) \<and> vai ! i ! nat v = int i - 1 - v))
          (enumerate 0 (predicted ! b))"
    unfolding list_all_enumerate
  proof (intro allI impI)
    fix i assume i: "i < length (predicted ! b)"
    let ?v = "predicted ! b ! i"
    from rows i have iK: "i < K" and d: "decoded_from (scores ! b ! i) ?v"
      using lenK by (auto simp: list_all2_conv_all_nth)
    have w: "length (scores ! b ! i) = Suc W"
      using list_all_nthD [OF list_all_nthD [OF width bs]] iK lenK by simp
    from d have "nat (?v + 1) < length (scores ! b ! i)"
      by (simp add: decoded_from_def is_first_max_def)
    with w have vW: "?v < int W" by linarith
    from hb i have vi: "?v < int i"
      unfolding list_all_enumerate by simp
    show "?v < 0 \<or> (?v < int (length (vai ! i)) \<and> vai ! i ! nat ?v = int i - 1 - ?v)"
    proof (cases "?v < 0")
      case True
      then show ?thesis by simp
    next
      case False
      then have nv: "nat ?v < W" using vW by simp
      from generate_valid_antecedents_shape(4,6) [OF g iK] nv False vi vW
      show ?thesis by simp
    qed
  qed
qed

text \<open>
  C5. In every forward call that completes prediction, the predicted antecedent of the
  kept span at position i lies in {-1, 0, ..., i-1}; the span at position 0 receives -1.
  When the call built the window itself, a value that is not -1 lies inside the window and
  the window names an earlier kept span there, position i - 1 - value. (A supplied scoring
  state is taken to hold a score matrix that keeps to each span's history, as every matrix
  that forward computes does.)
\<close>

theorem predicted_antecedent_within_history:
  assumes "run_branches r a = Inr (Inr l)" and "forward r a = Inr out"
    and "supplied_scores_keep_history a"
  shows "map_of out ''predicted_antecedents'' = Some (Long2 (lc_predicted_antecedents l)) \<and>
         within_history (lc_predicted_antecedents l) \<and>
         (given (coref_scores_info a) \<noteq> None \<or>
          names_earlier_spans (lc_valid_antecedent_indices l) (lc_predicted_antecedents l))"
proof -
  have fin: "finish r a l = Inr out"
    using assms by (simp add: forward_finish)
  have out: "map_of out ''predicted_antecedents'' = Some (Long2 (lc_predicted_antecedents l))"
    using finish_keeps [OF fin, of "''predicted_antecedents''"] run_branches_locals(2) [OF assms(1)]
    by simp
  have dec: "list_all2 (list_all2 decoded_from) (lc_coreference_scores l)
               (lc_predicted_antecedents l)"
    using run_branches_locals(1) [OF assms(1)] by (rule predict_antecedents_decoded)
  from assms(1) show ?thesis
  proof (rule run_branches_cases)
    fix p
    assume none: "given (coref_scores_info a) = None"
      and sc: "score_spans r a p = Inr (Inr l)"
    from sc obtain offs lm pairs candidate_scores where
      g: "generate_valid_antecedents (pr_num_spans_to_keep p)
       (min (self_max_antecedents r) (pr_num_spans_to_keep p)) =
       (lc_valid_antecedent_indices l, offs, lm)"
      and c: "compute_coreference_scores (antecedent_scorer r) pairs (pr_top_span_mention_scores p)
       candidate_scores lm = Inr (lc_coreference_scores l)"
      by (rule score_spans_window)
    note shape = computed_scores_history_masked [OF g c]
    have h: "within_history (lc_predicted_antecedents l)"
      using shape(1) dec by (rule decoded_within_history)
    have "names_earlier_spans (lc_valid_antecedent_indices l) (lc_predicted_antecedents l)"
      using g shape(2) shape(4) dec h by (rule decoded_names_earlier)
    with out h show ?thesis by simp
  next
    fix info
    assume some: "given (coref_scores_info a) = Some info"
      and d: "decode_from_info info = Inr l"
    from decode_from_info_scores [OF d] assms(3) some
    have "history_masked (lc_coreference_scores l)"
      by (auto simp: supplied_scores_keep_history_def)
    then have "within_history (lc_predicted_antecedents l)"
      using dec by (rule decoded_within_history)
    with out some show ?thesis by simp
  qed
qed

lemma demo_keeps: "supplied_scores_keep_history demo_document"
  by code_simp

theorem predicted_antecedent_within_history_witness:
  "supplied_scores_keep_history demo_document \<and>
   within_history [[- 1, 0]] \<and> names_earlier_spans [[0, 0], [0, 0]] [[- 1, 0]]"
  using predicted_antecedent_within_history [OF demo_run demo_forward demo_keeps] demo_keeps given_Some [of "coref_scores_info demo_document"]
  by (auto simp: demo_document_def demo_args_def)


section \<open>Relabelling the gold clusters\<close>

lemma rel_andthen:
  assumes "rel_sum (=) A x y" and "\<And>a b. A a b \<Longrightarrow> rel_sum (=) B (g a) (h b)"
  shows "rel_sum (=) B (andthen x g) (andthen y h)"
  using assms by (cases x; cases y) (simp_all add: andthen_def)

lemma rel_mapM:
  assumes "list_all2 A xs ys" and "\<And>x y. A x y \<Longrightarrow> rel_sum (=) B (g x) (h y)"
  shows "rel_sum (=) (list_all2 B) (mapM g xs) (mapM h ys)"
  using assms(1)
proof (induction xs ys rule: list_all2_induct)
  case Nil
  then show ?case by simp
next
  case (Cons x xs y ys)
  from assms(2) [OF Cons.hyps(1)] Cons.IH show ?case
    by (cases "g x"; cases "h y"; cases "mapM g xs"; cases "mapM h ys") simp_all
qed

lemma rel_map2M:
  assumes "list_all2 A xs xs'" and "list_all2 C ys ys'"
    and "\<And>x x' y y'. A x x' \<Longrightarrow> C y y' \<Longrightarrow> rel_sum (=) B (g x y) (h x' y')"
  shows "rel_sum (=) (list_all2 B) (map2M g xs ys) (map2M h xs' ys')"
proof (cases "length xs = length ys")
  case True
  have lens: "length xs = length xs'" "length ys = length ys'"
    using assms(1,2) by (simp_all add: list_all2_lengthD)
  with True have len: "length xs' = length ys'" by simp
  have "list_all2 (\<lambda>p q. A (fst p) (fst q) \<and> C (snd p) (snd q)) (zip xs ys) (zip xs' ys')"
    using assms(1,2) True len by (auto simp: list_all2_conv_all_nth)
  then have "rel_sum (=) (list_all2 B) (mapM (\<lambda>(x, y). g x y) (zip xs ys))
               (mapM (\<lambda>(x, y). h x y) (zip xs' ys'))"
    by (rule rel_mapM) (auto intro: assms(3))
  with True len show ?thesis by (simp add: map2M_def)
next
  case False
  have "length xs = length xs'" "length ys = length ys'"
    using assms(1,2) by (simp_all add: list_all2_lengthD)
  with False have "length xs' \<noteq> length ys'" by simp
  with False show ?thesis by (simp add: map2M_def)
qed

lemma rel_index_select:
  "list_all2 A xs ys \<Longrightarrow> rel_sum (=) A (index_select xs i) (index_select ys i)"
  by (auto simp: index_select_def list_all2_conv_all_nth)

lemma rel_concat:
  "list_all2 (list_all2 A) xss yss \<Longrightarrow> list_all2 A (concat xss) (concat yss)"
  by (induction xss yss rule: list_all2_induct) (auto intro: list_all2_appendI)

lemma rel_chop:
  "list_all2 A xs ys \<Longrightarrow> list_all2 (list_all2 A) (chop ns xs) (chop ns ys)"
  by (induction ns arbitrary: xs ys) (auto intro: list_all2_takeI list_all2_dropI)

lemma rel_view_as:
  "list_all2 A xs ys \<Longrightarrow> rel_sum (=) (list_all2 (list_all2 A)) (view_as shape xs) (view_as shape ys)"
  by (auto simp: view_as_def rel_chop dest: list_all2_lengthD)

lemma rel_batched_index_select:
  assumes "list_all2 (list_all2 A) t t'"
  shows "rel_sum (=) (list_all2 (list_all2 A))
           (batched_index_select t idx flat) (batched_index_select t' idx flat)"
proof -
  have "rel_sum (=) (list_all2 A) (mapM (index_select (concat t)) flat)
          (mapM (index_select (concat t')) flat)"
    by (rule rel_mapM [where A = "(=)"])
       (auto simp: list_all2_same intro: rel_index_select rel_concat assms)
  then show ?thesis
    unfolding batched_index_select_def
    by (cases "mapM (index_select (concat t)) flat"; cases "mapM (index_select (concat t')) flat")
       (auto intro: rel_view_as)
qed

lemma rel_flattened_index_select:
  assumes "list_all2 (list_all2 A) t t'"
  shows "rel_sum (=) (list_all2 (list_all2 (list_all2 A)))
           (flattened_index_select t idx) (flattened_index_select t' idx)"
  unfolding flattened_index_select_def
  by (rule rel_mapM [OF assms])
     (auto simp: list_all2_same intro!: rel_mapM [where A = "(=)"] rel_index_select)


lemma wrap64_id: "- (2 ^ 63) \<le> x \<Longrightarrow> x < 2 ^ 63 \<Longrightarrow> wrap64 x = x"
  by (simp add: wrap64_def)

lemma wrap64_masked:
  assumes "cluster_id l"
  shows "\<not> cluster_id (wrap64 (l - 2 ^ 63))"
proof (cases "l = - 1")
  case True
  then show ?thesis by (simp add: wrap64_def cluster_id_def)
next
  case False
  with assms have l: "0 \<le> l" "l < 2 ^ 63 - 1" by (simp_all add: cluster_id_def)
  then have "wrap64 (l - 2 ^ 63) = l - 2 ^ 63"
    by (simp add: wrap64_def)
  with l show ?thesis by (simp add: cluster_id_def)
qed

lemma rel_add_log_mask:
  assumes inj: "inj_on f G"
    and rng: "\<And>l. l \<in> G \<Longrightarrow> cluster_id l \<and> cluster_id (f l)"
    and ant: "list_all2 (list_all2 (list_all2 (\<lambda>x y. x \<in> G \<and> y = f x))) xs ys"
    and lm: "is_log_mask lm"
  shows "rel_sum (=) (list_all2 (list_all2 (list_all2 (\<lambda>x y. \<forall>t \<in> G. (t = x) = (f t = y)))))
           (add_log_mask xs lm) (add_log_mask ys lm)"
  unfolding add_log_mask_def
proof (rule rel_mapM [OF ant])
  fix labels labels' :: "int list list"
  assume l: "list_all2 (list_all2 (\<lambda>x y. x \<in> G \<and> y = f x)) labels labels'"
  have m: "list_all2 (\<lambda>m m'. m = m' \<and> list_all (\<lambda>v. v = Fin 0 \<or> v = NegInf) m) lm lm"
    using lm by (auto simp: is_log_mask_def list_all2_same list_all_iff)
  show "rel_sum (=) (list_all2 (list_all2 (\<lambda>x y. \<forall>t \<in> G. (t = x) = (f t = y))))
          (map2M (\<lambda>row mrow. map2M (\<lambda>l m. Inr (wrap64 (l + long_of m))) row mrow) labels lm)
          (map2M (\<lambda>row mrow. map2M (\<lambda>l m. Inr (wrap64 (l + long_of m))) row mrow) labels' lm)"
  proof (rule rel_map2M [OF l m])
    fix row row' :: "int list" and mrow mrow' :: "xreal list"
    assume r: "list_all2 (\<lambda>x y. x \<in> G \<and> y = f x) row row'"
      and mr: "mrow = mrow' \<and> list_all (\<lambda>v. v = Fin 0 \<or> v = NegInf) mrow"
    then have mm: "list_all2 (\<lambda>m m'. m = m' \<and> (m = Fin 0 \<or> m = NegInf)) mrow mrow'"
      by (auto simp: list_all2_same list_all_iff)
    show "rel_sum (=) (list_all2 (\<lambda>x y. \<forall>t \<in> G. (t = x) = (f t = y)))
            (map2M (\<lambda>l m. Inr (wrap64 (l + long_of m))) row mrow)
            (map2M (\<lambda>l m. Inr (wrap64 (l + long_of m))) row' mrow')"
    proof (rule rel_map2M [OF r mm])
      fix x y :: int and v v' :: xreal
      assume xy: "x \<in> G \<and> y = f x" and v: "v = v' \<and> (v = Fin 0 \<or> v = NegInf)"
      from xy rng have cx: "cluster_id x" and cy: "cluster_id (f x)" by simp_all
      have "\<forall>t \<in> G. (t = wrap64 (x + long_of v)) = (f t = wrap64 (y + long_of v'))"
      proof (cases "v = NegInf")
        case True
        have "t \<noteq> wrap64 (x - 2 ^ 63) \<and> f t \<noteq> wrap64 (f x - 2 ^ 63)" if "t \<in> G" for t
          using wrap64_masked [OF cx] wrap64_masked [OF cy] rng [OF that] by auto
        with True v xy show ?thesis by simp
      next
        case False
        with v have v0: "v = Fin 0" "v' = Fin 0" by auto
        have "wrap64 x = x" "wrap64 (f x) = f x"
          using cx cy by (simp_all add: wrap64_id cluster_id_def)
        with v0 xy inj show ?thesis by (auto dest: inj_onD)
      qed
      then show "rel_sum (=) (\<lambda>x y. \<forall>t \<in> G. (t = x) = (f t = y))
                  (Inr (wrap64 (x + long_of v))) (Inr (wrap64 (y + long_of v')))"
        by simp
    qed
  qed
qed

lemma compute_antecedent_gold_labels_invariant:
  assumes sent: "\<And>l. l \<in> G \<Longrightarrow> (f l = - 1) = (l = - 1)"
    and tg: "list_all2 (list_all2 (\<lambda>x y. x \<in> G \<and> y = f x)) ts ts'"
    and ant: "list_all2 (list_all2 (list_all2 (\<lambda>x y. \<forall>t \<in> G. (t = x) = (f t = y)))) xs ys"
  shows "compute_antecedent_gold_labels ts' ys = compute_antecedent_gold_labels ts xs"
proof -
  have "rel_sum (=) (list_all2 (list_all2 (=)))
          (compute_antecedent_gold_labels ts xs) (compute_antecedent_gold_labels ts' ys)"
    unfolding compute_antecedent_gold_labels_def
  proof (rule rel_map2M [OF tg ant], rule rel_map2M, assumption, assumption)
    fix t t' :: int and row row' :: "int list"
    assume t: "t \<in> G \<and> t' = f t"
      and r: "list_all2 (\<lambda>x y. \<forall>t \<in> G. (t = x) = (f t = y)) row row'"
    have "map (\<lambda>l. t = l \<and> t \<noteq> - 1) row = map (\<lambda>l. t' = l \<and> t' \<noteq> - 1) row'"
      using r t sent [of t]
      by (auto simp: list_all2_conv_all_nth intro!: nth_equalityI)
    then show "rel_sum (=) (=)
            (let pairwise_labels = map (\<lambda>l. t = l \<and> t \<noteq> - 1) row;
                 dummy_label = list_all Not pairwise_labels
             in Inr (dummy_label # pairwise_labels))
            (let pairwise_labels = map (\<lambda>l. t' = l \<and> t' \<noteq> - 1) row';
                 dummy_label = list_all Not pairwise_labels
             in Inr (dummy_label # pairwise_labels))"
      by (simp add: Let_def)
  qed
  then show ?thesis
    by (simp add: list.rel_eq sum.rel_eq)
qed


lemma related_to_relabelled:
  "list_all2 (list_all2 (\<lambda>x y. x \<in> set (concat labels) \<and> y = f x)) labels (map (map f) labels)"
  by (auto simp: list_all2_map2 list_all2_same)

lemma gold_antecedent_labels_invariant:
  assumes kp: "keeps_partition f labels"
    and lm: "\<And>m. lc_valid_antecedent_log_mask l = Float2 m \<Longrightarrow> is_log_mask m"
  shows "gold_antecedent_labels_of l (map (map f) labels) = gold_antecedent_labels_of l labels"
proof -
  let ?G = "set (concat labels)"
  from kp have inj: "inj_on f ?G"
    and rng: "\<And>x. x \<in> ?G \<Longrightarrow> cluster_id x \<and> cluster_id (f x)"
    and sent: "\<And>x. x \<in> ?G \<Longrightarrow> (f x = - 1) = (x = - 1)"
    by (auto simp: keeps_partition_def list_all_iff)
  have m: "rel_sum (=) (\<lambda>m m'. m = m' \<and> is_log_mask m)
             (as_float2 (lc_valid_antecedent_log_mask l)) (as_float2 (lc_valid_antecedent_log_mask l))"
    using lm by (cases "lc_valid_antecedent_log_mask l") simp_all
  have "rel_sum (=) (=) (gold_antecedent_labels_of l labels)
          (gold_antecedent_labels_of l (map (map f) labels))"
    unfolding gold_antecedent_labels_of_def
  proof (rule rel_andthen [where A = "(=)"], simp add: sum.rel_eq,
         rule rel_andthen [where A = "(=)"], simp add: sum.rel_eq)
    fix idx idx' :: "int list list" and flat flat' :: "int list"
    assume e: "idx = idx'" "flat = flat'"
    show "rel_sum (=) (=)
        (andthen (batched_index_select labels idx flat)
          (\<lambda>pruned_gold_labels.
              andthen (flattened_index_select pruned_gold_labels (lc_valid_antecedent_indices l))
               (\<lambda>antecedent_labels.
                   andthen (as_float2 (lc_valid_antecedent_log_mask l))
                    (\<lambda>valid_antecedent_log_mask.
                        andthen (add_log_mask antecedent_labels valid_antecedent_log_mask)
                         (compute_antecedent_gold_labels pruned_gold_labels)))))
        (andthen (batched_index_select (map (map f) labels) idx' flat')
          (\<lambda>pruned_gold_labels.
              andthen (flattened_index_select pruned_gold_labels (lc_valid_antecedent_indices l))
               (\<lambda>antecedent_labels.
                   andthen (as_float2 (lc_valid_antecedent_log_mask l))
                    (\<lambda>valid_antecedent_log_mask.
                        andthen (add_log_mask antecedent_labels valid_antecedent_log_mask)
                         (compute_antecedent_gold_labels pruned_gold_labels)))))"
      unfolding e [symmetric]
    proof (rule rel_andthen [OF rel_batched_index_select [OF related_to_relabelled]])
      fix ts ts' :: "int list list"
      assume tg: "list_all2 (list_all2 (\<lambda>x y. x \<in> ?G \<and> y = f x)) ts ts'"
      show "rel_sum (=) (=)
          (andthen (flattened_index_select ts (lc_valid_antecedent_indices l))
               (\<lambda>antecedent_labels.
                   andthen (as_float2 (lc_valid_antecedent_log_mask l))
                    (\<lambda>valid_antecedent_log_mask.
                        andthen (add_log_mask antecedent_labels valid_antecedent_log_mask)
                         (compute_antecedent_gold_labels ts))))
          (andthen (flattened_index_select ts' (lc_valid_antecedent_indices l))
               (\<lambda>antecedent_labels.
                   andthen (as_float2 (lc_valid_antecedent_log_mask l))
                    (\<lambda>valid_antecedent_log_mask.
                        andthen (add_log_mask antecedent_labels valid_antecedent_log_mask)
                         (compute_antecedent_gold_labels ts'))))"
      proof (rule rel_andthen [OF rel_flattened_index_select [OF tg]],
             rule rel_andthen [OF m])
        fix xs ys :: "int list list list" and v v' :: "xreal list list"
        assume ant: "list_all2 (list_all2 (list_all2 (\<lambda>x y. x \<in> ?G \<and> y = f x))) xs ys"
          and v: "v = v' \<and> is_log_mask v"
        from v have vv: "v' = v" and il: "is_log_mask v" by auto
        show "rel_sum (=) (=)
            (andthen (add_log_mask xs v) (compute_antecedent_gold_labels ts))
            (andthen (add_log_mask ys v') (compute_antecedent_gold_labels ts'))"
          unfolding vv
        proof (rule rel_andthen [OF rel_add_log_mask [OF inj rng ant il]])
          fix zs zs' :: "int list list list"
          assume "list_all2 (list_all2 (list_all2 (\<lambda>x y. \<forall>t \<in> ?G. (t = x) = (f t = y)))) zs zs'"
          from compute_antecedent_gold_labels_invariant [OF sent tg this]
          show "rel_sum (=) (=) (compute_antecedent_gold_labels ts zs)
                  (compute_antecedent_gold_labels ts' zs')"
            by (simp add: sum.rel_eq)
        qed
      qed
    qed
  qed
  then show ?thesis by (simp add: sum.rel_eq)
qed

lemma prune_ignores_labels: "prune r (a\<lparr>span_labels := x\<rparr>) = prune r a"
  by (simp add: prune_def prune_fresh_def cong: option.case_cong)

lemma score_spans_ignores_labels: "score_spans r (a\<lparr>span_labels := x\<rparr>) p = score_spans r a p"
  by (simp add: score_spans_def)

lemma run_branches_ignores_labels:
  "run_branches r (a\<lparr>span_labels := x\<rparr>) = run_branches r a"
  by (simp add: run_branches_def prune_ignores_labels score_spans_ignores_labels
           cong: option.case_cong sum.case_cong)

lemma generated_log_mask:
  "generate_valid_antecedents K W = (vai, offs, lm) \<Longrightarrow> is_log_mask lm"
  by (auto simp: generate_valid_antecedents_def Let_def is_log_mask_def list_all_iff)

lemma locals_log_mask:
  assumes "run_branches r a = Inr (Inr l)" and "supplied_log_mask_is_mask a"
    and "lc_valid_antecedent_log_mask l = Float2 m"
  shows "is_log_mask m"
  using assms(1)
proof (rule run_branches_cases)
  fix p assume "score_spans r a p = Inr (Inr l)"
  then show ?thesis
    using assms(3) by (elim score_spans_cases) (auto dest: generated_log_mask)
next
  fix info
  assume g: "given (coref_scores_info a) = Some info" and d: "decode_from_info info = Inr l"
  from d have "map_of info ''valid_antecedent_log_mask'' = Some (lc_valid_antecedent_log_mask l)"
    by (auto simp: decode_from_info_def andthen_Inr getitem_Inr)
  with assms(2,3) g show ?thesis
    by (simp add: supplied_log_mask_is_mask_def)
qed

text \<open>
  C9. For every input with gold labels, relabelling the cluster ids in a way that keeps the
  partition of the spans (and the sentinel -1) leaves the whole result of forward, the loss
  included, exactly as it was: the labels reach the loss only through the gold antecedent
  indicator, and the indicator only compares labels. (Labels are cluster ids below the
  largest 64-bit integer, and the log-mask inside a supplied scoring state is a log-mask.)
\<close>

theorem loss_invariant_under_relabelling:
  assumes "keeps_partition f labels" and "supplied_log_mask_is_mask a"
  shows "forward r (a\<lparr>span_labels := Some (map (map f) labels)\<rparr>) =
         forward r (a\<lparr>span_labels := Some labels\<rparr>)"
proof (cases "run_branches r a")
  case (Inl e)
  then show ?thesis
    by (simp add: forward_def run_branches_ignores_labels andthen_def)
next
  case (Inr reached)
  show ?thesis
  proof (cases reached)
    case (Inl early)
    with Inr show ?thesis
      by (simp add: forward_def run_branches_ignores_labels andthen_def)
  next
    case (Inr l)
    with \<open>run_branches r a = Inr reached\<close> have rb: "run_branches r a = Inr (Inr l)" by simp
    have "gold_antecedent_labels_of l (map (map f) labels) = gold_antecedent_labels_of l labels"
      using assms(1) locals_log_mask [OF rb assms(2)]
      by (rule gold_antecedent_labels_invariant)
    then have "finish r (a\<lparr>span_labels := Some (map (map f) labels)\<rparr>) l =
               finish r (a\<lparr>span_labels := Some labels\<rparr>) l"
      by (simp add: finish_def marginal_loss_def negative_marginal_log_likelihood_def)
    with rb show ?thesis
      by (simp add: forward_def run_branches_ignores_labels andthen_def)
  qed
qed

lemma demo_keeps_partition: "keeps_partition demo_relabel [[1, 1, 2, - 1]]"
  by (simp add: keeps_partition_def demo_relabel_def cluster_id_def inj_on_def)

lemma demo_mask_ok: "supplied_log_mask_is_mask demo_document"
  by code_simp

theorem loss_invariant_under_relabelling_witness:
  "keeps_partition demo_relabel [[1, 1, 2, - 1]] \<and> supplied_log_mask_is_mask demo_document \<and>
   forward (demo_resolver pruner_select) (demo_document\<lparr>span_labels := Some [[7, 7, 3, - 1]]\<rparr>) =
   forward (demo_resolver pruner_select) (demo_document\<lparr>span_labels := Some [[1, 1, 2, - 1]]\<rparr>)"
  using loss_invariant_under_relabelling [OF demo_keeps_partition demo_mask_ok, of "demo_resolver pruner_select"]
    demo_keeps_partition demo_mask_ok
  by (simp add: demo_relabel_def)


section \<open>Resuming from the pruning state\<close>

lemma given_nonempty: "given (Some (x # xs)) = Some (x # xs)"
  by (simp add: given_def)

lemma prune_from_own_state:
  assumes "pruner_coherent p"
  shows "prune_from_info (pruning_state_of p) t = Inr (p\<lparr>pr_spans := t\<rparr>)"
  using assms
  by (simp add: prune_from_info_def pruning_state_of_def pruner_coherent_def getitem_def
        andthen_def)

lemma prune_with_own_state:
  assumes "pruner_coherent p"
  shows "prune r (a\<lparr>top_spans_info := Some (pruning_state_of p)\<rparr>) =
           Inr (Inr (p\<lparr>pr_spans := spans a\<rparr>))"
  using prune_from_own_state [OF assms, of "spans a"]
  by (simp add: prune_def pruning_state_of_def given_def andthen_def)

lemma score_spans_ignores_info:
  "score_spans r (a\<lparr>top_spans_info := x\<rparr>) p = score_spans r a p"
  by (simp add: score_spans_def)

lemma finish_ignores_info: "finish r (a\<lparr>top_spans_info := x\<rparr>) l = finish r a l"
  by (simp add: finish_def cong: option.case_cong)

lemma forward_with_own_state:
  assumes "given (coref_scores_info a) = None" and "pruner_coherent p"
  shows "forward r (a\<lparr>top_spans_info := Some (pruning_state_of p)\<rparr>) =
           andthen (score_spans r a (p\<lparr>pr_spans := spans a\<rparr>))
             (\<lambda>reached. case reached of Inl early \<Rightarrow> Inr early | Inr l \<Rightarrow> finish r a l)"
  using assms(1) prune_with_own_state [OF assms(2), of r a]
  by (simp add: forward_def run_branches_def score_spans_ignores_info finish_ignores_info
        andthen_def cong: sum.case_cong)

lemma forward_fresh:
  assumes "given (coref_scores_info a) = None" and "prune r a = Inr (Inr p)"
  shows "forward r a =
           andthen (score_spans r a p)
             (\<lambda>reached. case reached of Inl early \<Rightarrow> Inr early | Inr l \<Rightarrow> finish r a l)"
  using assms by (simp add: forward_def run_branches_def andthen_def)


lemma score_spans_other_spans:
  assumes "score_spans r a p = Inr (Inr l)"
    and "score_spans r a (p\<lparr>pr_spans := t\<rparr>) = Inr (Inr l')"
  shows "\<exists>kept. batched_index_select t (pr_top_span_indices p) (pr_flat_top_span_indices p) =
                  Inr kept \<and>
           l' = l\<lparr>lc_top_spans := kept,
                  lc_output_dict := setitem (lc_output_dict l) ''top_spans'' (Spans kept)\<rparr>"
  using assms(1)
proof (rule score_spans_cases)
  fix top_spans candidate_embeddings candidate_scores pairs vai offs lm
  assume 1: "generate_valid_antecedents (pr_num_spans_to_keep p)
       (min (self_max_antecedents r) (pr_num_spans_to_keep p)) = (vai, offs, lm)"
    "flattened_index_select (pr_top_span_embeddings p) vai = Inr candidate_embeddings"
    "flattened_index_select (pr_top_span_mention_scores p) vai = Inr candidate_scores"
    "compute_span_pair_embeddings (pr_top_span_embeddings p) candidate_embeddings offs = Inr pairs"
    "compute_coreference_scores (antecedent_scorer r) pairs (pr_top_span_mention_scores p)
       candidate_scores lm = Inr (lc_coreference_scores l)"
    "predict_antecedents (lc_coreference_scores l) = Inr (lc_predicted_antecedents l)"
    "lc_output_dict l =
       (if get_scores a
        then setitem [(''top_spans'', Spans top_spans), (''antecedent_indices'', Long2 vai),
                      (''predicted_antecedents'', Long2 (lc_predicted_antecedents l))]
               ''coreference_scores'' (Float3 (lc_coreference_scores l))
        else [(''top_spans'', Spans top_spans), (''antecedent_indices'', Long2 vai),
              (''predicted_antecedents'', Long2 (lc_predicted_antecedents l))])"
    "lc_top_span_indices l = Long2 (pr_top_span_indices p)"
    "lc_flat_top_span_indices l = Long1 (pr_flat_top_span_indices p)"
    "lc_top_span_mask l = Mask2 (pr_top_span_mask p)"
    "lc_valid_antecedent_log_mask l = Float2 lm"
    "lc_top_spans l = top_spans"
    "lc_valid_antecedent_indices l = vai"
  from assms(2) show ?thesis
  proof (rule score_spans_cases)
    fix top_spans' candidate_embeddings' candidate_scores' pairs' vai' offs' lm'
    assume 2: "generate_valid_antecedents (pr_num_spans_to_keep (p\<lparr>pr_spans := t\<rparr>))
       (min (self_max_antecedents r) (pr_num_spans_to_keep (p\<lparr>pr_spans := t\<rparr>))) =
       (vai', offs', lm')"
      "batched_index_select (pr_spans (p\<lparr>pr_spans := t\<rparr>))
         (pr_top_span_indices (p\<lparr>pr_spans := t\<rparr>))
         (pr_flat_top_span_indices (p\<lparr>pr_spans := t\<rparr>)) = Inr top_spans'"
      "flattened_index_select (pr_top_span_embeddings (p\<lparr>pr_spans := t\<rparr>)) vai' =
         Inr candidate_embeddings'"
      "flattened_index_select (pr_top_span_mention_scores (p\<lparr>pr_spans := t\<rparr>)) vai' =
         Inr candidate_scores'"
      "compute_span_pair_embeddings (pr_top_span_embeddings (p\<lparr>pr_spans := t\<rparr>))
         candidate_embeddings' offs' = Inr pairs'"
      "compute_coreference_scores (antecedent_scorer r) pairs'
         (pr_top_span_mention_scores (p\<lparr>pr_spans := t\<rparr>)) candidate_scores' lm' =
         Inr (lc_coreference_scores l')"
      "predict_antecedents (lc_coreference_scores l') = Inr (lc_predicted_antecedents l')"
      "lc_output_dict l' =
       (if get_scores a
        then setitem [(''top_spans'', Spans top_spans'), (''antecedent_indices'', Long2 vai'),
                      (''predicted_antecedents'', Long2 (lc_predicted_antecedents l'))]
               ''coreference_scores'' (Float3 (lc_coreference_scores l'))
        else [(''top_spans'', Spans top_spans'), (''antecedent_indices'', Long2 vai'),
              (''predicted_antecedents'', Long2 (lc_predicted_antecedents l'))])"
      "lc_top_span_indices l' = Long2 (pr_top_span_indices (p\<lparr>pr_spans := t\<rparr>))"
      "lc_flat_top_span_indices l' = Long1 (pr_flat_top_span_indices (p\<lparr>pr_spans := t\<rparr>))"
      "lc_top_span_mask l' = Mask2 (pr_top_span_mask (p\<lparr>pr_spans := t\<rparr>))"
      "lc_valid_antecedent_log_mask l' = Float2 lm'"
      "lc_top_spans l' = top_spans'"
      "lc_valid_antecedent_indices l' = vai'"
    from 1(1) 2(1) have w: "vai' = vai" "offs' = offs" "lm' = lm" by simp_all
    from 1(2,3) 2(3,4) w have c: "candidate_embeddings' = candidate_embeddings"
      "candidate_scores' = candidate_scores" by simp_all
    from 1(4) 2(5) w c have pe: "pairs' = pairs" by simp
    from 1(5) 2(6) w c pe have sc: "lc_coreference_scores l' = lc_coreference_scores l" by simp
    from 1(6) 2(7) sc have pa: "lc_predicted_antecedents l' = lc_predicted_antecedents l" by simp
    have "l' = l\<lparr>lc_top_spans := top_spans',
                  lc_output_dict := setitem (lc_output_dict l) ''top_spans'' (Spans top_spans')\<rparr>"
      by (rule locals.equality) (use 1 2 w sc pa in \<open>simp_all add: setitem_def\<close>)
    with 2(2) show ?thesis by simp
  qed
qed

lemma loss_ignores_top_spans:
  "negative_marginal_log_likelihood r (l\<lparr>lc_top_spans := t, lc_output_dict := d\<rparr>) labels =
   negative_marginal_log_likelihood r l labels"
  by (simp add: negative_marginal_log_likelihood_def gold_antecedent_labels_of_def)

lemma marginal_loss_Inr:
  "marginal_loss r l labels md = Inr nll \<Longrightarrow> negative_marginal_log_likelihood r l labels = Inr nll"
  by (auto simp: marginal_loss_def andthen_Inr split: option.splits)

lemma marginal_loss_same_value:
  assumes "marginal_loss r l labels md = Inr nll"
    and "marginal_loss r (l\<lparr>lc_top_spans := t, lc_output_dict := d\<rparr>) labels md = Inr nll'"
  shows "nll' = nll"
  using marginal_loss_Inr [OF assms(1)] marginal_loss_Inr [OF assms(2)]
  by (simp add: loss_ignores_top_spans)

lemma finish_document:
  assumes "finish r a l = Inr out"
  shows "map_of out ''document'' =
           (case metadata_in a of
              None \<Rightarrow> map_of (lc_output_dict l) ''document''
            | Some md \<Rightarrow> Some (Docs (map original_text md)))"
  using assms
  by (cases "metadata_in a"; cases "span_labels a"; cases "get_scores a")
     (auto simp: finish_def andthen_Inr Let_def map_of_setitem)

lemma finish_indices:
  assumes "finish r a l = Inr out"
  shows "map_of out ''top_span_indices'' =
           (if get_scores a then Some (lc_top_span_indices l)
            else map_of (lc_output_dict l) ''top_span_indices'')"
  using assms
  by (auto simp: finish_def andthen_Inr Let_def map_of_setitem
           split: option.splits if_splits)

lemma finish_labels_loss:
  assumes "finish r a l = Inr out" and "span_labels a = Some labels"
  shows "\<exists>nll. marginal_loss r l labels (metadata_in a) = Inr nll"
  using assms
  by (auto simp: finish_def andthen_Inr Let_def split: option.splits if_splits)

lemma list_all2_is_map: "list_all2 (\<lambda>x y. y = f x) xs ys \<longleftrightarrow> ys = map f xs"
  by (auto simp: list_all2_conv_all_nth intro!: nth_equalityI)

lemma list_all2_is_map_fun: "list_all2 (\<lambda>x y. y = f x) = (\<lambda>xs ys. ys = map f xs)"
  by (intro ext) (rule list_all2_is_map)

lemma batched_index_select_clamped:
  assumes "batched_index_select (relu_spans t) idx flat = Inr clamped"
    and "batched_index_select t idx flat = Inr kept"
  shows "clamped = relu_spans kept"
proof -
  let ?c = "\<lambda>(s :: int, e :: int). (max 0 s, max 0 e)"
  have "list_all2 (list_all2 (\<lambda>x y. y = ?c x)) t (relu_spans t)"
    by (simp add: relu_spans_def list_all2_map2 list_all2_same)
  from rel_batched_index_select [OF this, of idx flat] assms
  have "list_all2 (list_all2 (\<lambda>x y. y = ?c x)) kept clamped"
    by simp
  then have "list_all2 (\<lambda>xs ys. ys = map ?c xs) kept clamped"
    by (simp only: list_all2_is_map_fun)
  then show ?thesis
    by (simp only: list_all2_is_map relu_spans_def)
qed

lemma score_spans_completes:
  assumes "score_spans r a p = Inr reached" and "\<not> return_coref_scores a"
  obtains l where "reached = Inr l"
  using assms(1)
  by (rule score_spans_result) (use assms(2) in \<open>simp add: Let_def\<close>)

lemma score_spans_top_spans:
  assumes "score_spans r a p = Inr (Inr l)"
  shows "batched_index_select (pr_spans p) (pr_top_span_indices p) (pr_flat_top_span_indices p) =
           Inr (lc_top_spans l)"
    and "map_of (lc_output_dict l) ''top_spans'' = Some (Spans (lc_top_spans l))"
  using assms by (auto elim!: score_spans_cases simp: map_of_setitem)

text \<open>
  C4, amended. Take a fresh end-to-end call (no state supplied, no early return asked for)
  and the call that supplies, through \<^verbatim>\<open>top_spans_info\<close>, the pruning state the fresh
  path computes, the pruner returning the embeddings of the spans it names and as many as
  it was asked for. When both calls return, every entry of the output other than
  \<^verbatim>\<open>top_spans\<close> is the same (coreference scores, predicted antecedents, antecedent
  indices, loss, document), and \<^verbatim>\<open>top_spans\<close> of the fresh call is the clamped
  \<^verbatim>\<open>top_spans\<close> of the other: line 168 clamps the spans on the fresh branch only.
  When no span index is negative the two calls agree in everything, a raise included.
\<close>

theorem precomputed_pruning_matches_fresh_path_up_to_clamping:
  assumes c: "given (coref_scores_info a) = None" and t: "given (top_spans_info a) = None"
    and nr: "\<not> return_coref_scores a"
    and pf: "prune_fresh r a = Inr (Inr p)" and co: "pruner_coherent p"
  shows "(relu_spans (spans a) = spans a \<longrightarrow> forward_from_own_pruning r a = forward r a) \<and>
         (\<forall>out out'. forward r a = Inr out \<and> forward_from_own_pruning r a = Inr out' \<longrightarrow>
            (\<forall>k. k \<noteq> ''top_spans'' \<longrightarrow> map_of out' k = map_of out k) \<and>
            (\<exists>kept. map_of out' ''top_spans'' = Some (Spans kept) \<and>
                    map_of out ''top_spans'' = Some (Spans (relu_spans kept))))"
proof -
  have pr: "prune r a = Inr (Inr p)"
    using t pf by (simp add: prune_def)
  have own: "forward_from_own_pruning r a =
           andthen (score_spans r a (p\<lparr>pr_spans := spans a\<rparr>))
             (\<lambda>reached. case reached of Inl early \<Rightarrow> Inr early | Inr l \<Rightarrow> finish r a l)"
    using forward_with_own_state [OF c co, of r] pf by (simp add: forward_from_own_pruning_def)
  note fresh = forward_fresh [OF c pr]
  have sp: "pr_spans p = relu_spans (spans a)"
    using pf by (rule prune_fresh_spans)
  have one: "forward_from_own_pruning r a = forward r a" if "relu_spans (spans a) = spans a"
  proof -
    from that sp have "p\<lparr>pr_spans := spans a\<rparr> = p" by simp
    with own fresh show ?thesis by simp
  qed
  have two: "(\<forall>k. k \<noteq> ''top_spans'' \<longrightarrow> map_of out' k = map_of out k) \<and>
             (\<exists>kept. map_of out' ''top_spans'' = Some (Spans kept) \<and>
                     map_of out ''top_spans'' = Some (Spans (relu_spans kept)))"
    if o: "forward r a = Inr out" and o': "forward_from_own_pruning r a = Inr out'" for out out'
  proof -
    from o fresh obtain reached where s: "score_spans r a p = Inr reached"
      and f0: "(case reached of Inl early \<Rightarrow> Inr early | Inr l \<Rightarrow> finish r a l) = Inr out"
      by (auto simp: andthen_Inr)
    from s nr obtain l where "reached = Inr l" by (rule score_spans_completes)
    with s f0 have sl: "score_spans r a p = Inr (Inr l)" and f: "finish r a l = Inr out"
      by simp_all
    from o' own obtain reached' where
      s': "score_spans r a (p\<lparr>pr_spans := spans a\<rparr>) = Inr reached'"
      and f0': "(case reached' of Inl early \<Rightarrow> Inr early | Inr l \<Rightarrow> finish r a l) = Inr out'"
      by (auto simp: andthen_Inr)
    from s' nr obtain l' where "reached' = Inr l'" by (rule score_spans_completes)
    with s' f0' have sl': "score_spans r a (p\<lparr>pr_spans := spans a\<rparr>) = Inr (Inr l')"
      and f': "finish r a l' = Inr out'"
      by simp_all
    from score_spans_other_spans [OF sl sl'] obtain kept where
      k: "batched_index_select (spans a) (pr_top_span_indices p) (pr_flat_top_span_indices p) =
            Inr kept"
      and l': "l' = l\<lparr>lc_top_spans := kept,
                      lc_output_dict := setitem (lc_output_dict l) ''top_spans'' (Spans kept)\<rparr>"
      by blast
    have loss: "marginal_loss r l' labels (metadata_in a) = marginal_loss r l labels (metadata_in a)"
      if "span_labels a = Some labels" for labels
    proof -
      from finish_labels_loss [OF f that] finish_labels_loss [OF f' that]
      obtain nll nll' where n: "marginal_loss r l labels (metadata_in a) = Inr nll"
        "marginal_loss r l' labels (metadata_in a) = Inr nll'"
        by blast
      with marginal_loss_same_value [of r l labels "metadata_in a" nll] l' show ?thesis
        by simp
    qed
    have base: "map_of (lc_output_dict l') k = map_of (lc_output_dict l) k"
      if "k \<noteq> ''top_spans''" for k
      using that l' by (simp add: map_of_setitem)
    have idx: "lc_top_span_indices l' = lc_top_span_indices l"
      using l' by simp
    have keys: "map_of out' k = map_of out k" if k: "k \<noteq> ''top_spans''" for k
    proof -
      consider "k = ''document''" | "k = ''loss''" | "k = ''top_span_indices''"
        | "k \<noteq> ''document''" "k \<noteq> ''loss''" "k \<noteq> ''top_span_indices''"
        by blast
      then show ?thesis
      proof cases
        case 1
        then show ?thesis
          using finish_document [OF f] finish_document [OF f'] base [of "''document''"]
          by (simp split: option.splits)
      next
        case 2
        show ?thesis
        proof (cases "span_labels a")
          case None
          with 2 finish_loss [OF f] finish_loss [OF f'] base [of "''loss''"] show ?thesis
            by simp
        next
          case (Some labels)
          with 2 finish_loss [OF f] finish_loss [OF f'] loss [OF Some] show ?thesis
            by simp
        qed
      next
        case 3
        then show ?thesis
          using finish_indices [OF f] finish_indices [OF f'] base [of "''top_span_indices''"] idx
          by simp
      next
        case 4
        then show ?thesis
          using finish_keeps [OF f, of k] finish_keeps [OF f', of k] base [OF k] by simp
      qed
    qed
    have "map_of out' ''top_spans'' = Some (Spans kept)"
      using l' finish_keeps [OF f', of "''top_spans''"] by (simp add: map_of_setitem)
    moreover have "map_of out ''top_spans'' = Some (Spans (lc_top_spans l))"
      using score_spans_top_spans(2) [OF sl] finish_keeps [OF f, of "''top_spans''"] by simp
    moreover have "lc_top_spans l = relu_spans kept"
      using score_spans_top_spans(1) [OF sl] k sp
      by (auto intro: batched_index_select_clamped)
    ultimately show ?thesis using keys by auto
  qed
  from one two show ?thesis by blast
qed


lemma padded_prune_fresh: "prune_fresh (demo_resolver pruner_select_exact) demo_padded =
     Inr (Inr \<lparr>pr_span_mention_scores = Float2 [[Fin 0, Fin 2, NegInf]],
               pr_span_embeddings = [[(0, 0), (1, 3), (0, 0)]],
               pr_num_spans_to_keep = 3,
               pr_spans = [[(0, 0), (1, 3), (0, 0)]],
               pr_top_span_embeddings = [[(0, 0), (1, 3), (0, 0)]],
               pr_top_span_mention_scores = [[Fin 0, Fin 2, NegInf]],
               pr_top_span_indices = [[0, 1, 2]],
               pr_flat_top_span_indices = [0, 1, 2],
               pr_top_span_mask = [[True, True, False]],
               pr_text_mask = ()\<rparr>)"
  by code_simp

lemma padded_coherent: "pruner_coherent
     \<lparr>pr_span_mention_scores = (Float2 [[Fin 0, Fin 2, NegInf]] :: (span, unit, real) val),
      pr_span_embeddings = [[(0, 0), (1, 3), (0, 0)]],
      pr_num_spans_to_keep = 3,
      pr_spans = [[(0, 0), (1, 3), (0, 0)]],
      pr_top_span_embeddings = [[(0, 0), (1, 3), (0, 0)]],
      pr_top_span_mention_scores = [[Fin 0, Fin 2, NegInf]],
      pr_top_span_indices = [[0, 1, 2]],
      pr_flat_top_span_indices = [0, 1, 2],
      pr_top_span_mask = [[True, True, False]],
      pr_text_mask = ()\<rparr>"
  by code_simp

lemma padded_own: "forward_from_own_pruning (demo_resolver pruner_select_exact) demo_padded =
  Inr [(''top_spans'', Spans [[(0, 0), (1, 3), (- 1, - 1)]]),
       (''antecedent_indices'', Long2 [[0, 0], [0, 0], [1, 0]]),
       (''predicted_antecedents'', Long2 [[- 1, 0, - 1]])]"
  by code_simp

lemma padded_flag: "\<not> return_coref_scores demo_padded"
  by code_simp

text \<open>
  C4, as stated, fails. On the six-token document the fresh call keeps the padding span
  and returns it clamped, (0, 0); the call from the fresh path's own pruning state returns
  the caller's (-1, -1).
\<close>

theorem precomputed_pruning_returns_unclamped_spans:
  "forward (demo_resolver pruner_select_exact) demo_padded =
     Inr [(''top_spans'', Spans [[(0, 0), (1, 3), (0, 0)]]),
          (''antecedent_indices'', Long2 [[0, 0], [0, 0], [1, 0]]),
          (''predicted_antecedents'', Long2 [[- 1, 0, - 1]])] \<and>
   forward_from_own_pruning (demo_resolver pruner_select_exact) demo_padded =
     Inr [(''top_spans'', Spans [[(0, 0), (1, 3), (- 1, - 1)]]),
          (''antecedent_indices'', Long2 [[0, 0], [0, 0], [1, 0]]),
          (''predicted_antecedents'', Long2 [[- 1, 0, - 1]])] \<and>
   forward_from_own_pruning (demo_resolver pruner_select_exact) demo_padded \<noteq>
     forward (demo_resolver pruner_select_exact) demo_padded"
  by (simp add: padded_own padded_forward)

theorem precomputed_pruning_matches_fresh_path_up_to_clamping_witness:
  "given (coref_scores_info demo_padded) = None \<and> given (top_spans_info demo_padded) = None \<and>
   \<not> return_coref_scores demo_padded \<and>
   (\<exists>kept. map_of [(''top_spans'', Spans [[(0, 0), (1, 3), (- 1, - 1)]]),
                    (''antecedent_indices'', Long2 [[0, 0], [0, 0], [1, 0]]),
                    (''predicted_antecedents'', Long2 [[- 1, 0, - 1]])] ''top_spans'' =
              (Some (Spans kept) :: (span, unit, real) val option) \<and>
            map_of [(''top_spans'', Spans [[(0, 0), (1, 3), (0, 0)]]),
                    (''antecedent_indices'', Long2 [[0, 0], [0, 0], [1, 0]]),
                    (''predicted_antecedents'', Long2 [[- 1, 0, - 1]])] ''top_spans'' =
              (Some (Spans (relu_spans kept)) :: (span, unit, real) val option))"
proof -
  note th = precomputed_pruning_matches_fresh_path_up_to_clamping [OF padded_given padded_flag padded_prune_fresh padded_coherent]
  from th padded_forward padded_own
  have "\<exists>kept. map_of [(''top_spans'', Spans [[(0, 0), (1, 3), (- 1, - 1)]]),
                    (''antecedent_indices'', Long2 [[0, 0], [0, 0], [1, 0]]),
                    (''predicted_antecedents'', Long2 [[- 1, 0, - 1]])] ''top_spans'' =
              (Some (Spans kept) :: (span, unit, real) val option) \<and>
            map_of [(''top_spans'', Spans [[(0, 0), (1, 3), (0, 0)]]),
                    (''antecedent_indices'', Long2 [[0, 0], [0, 0], [1, 0]]),
                    (''predicted_antecedents'', Long2 [[- 1, 0, - 1]])] ''top_spans'' =
              (Some (Spans (relu_spans kept)) :: (span, unit, real) val option)"
    by blast
  with padded_given padded_flag show ?thesis by blast
qed


section \<open>Every returned state is rejected\<close>

lemma score_spans_state:
  assumes "score_spans r a p = Inr (Inl state)"
  obtains output_dict idx flat top_mask lm where
    "state = [(''output_dict'', Dict output_dict), (''top_span_inds'', PyList [Long2 idx, Long1 flat]),
              (''top_span_mask'', Mask2 top_mask), (''ant_mask'', Float2 lm)]"
    "\<exists>top_spans vai scores predicted.
       output_dict = [(''top_spans'', Spans top_spans), (''antecedent_indices'', Long2 vai),
                      (''predicted_antecedents'', Long2 predicted),
                      (''coreference_scores'', Float3 scores)] \<and>
       predict_antecedents scores = Inr predicted"
  using assms
  by (rule score_spans_result) (auto simp: Let_def setitem_def split: if_splits)

text \<open>
  The key error does not depend on the input: whatever state line 285 returns, decoding
  it raises; and with the mask stored again under the key that line 290 reads, decoding
  succeeds with the predicted antecedents of the first call.
\<close>

lemma returned_state_is_rejected:
  assumes "score_spans r a p = Inr (Inl state)"
  shows "decode_from_info state = Inl (KeyError ''valid_antecedent_log_mask'')"
  using assms
  by (rule score_spans_state) (simp add: decode_from_info_def getitem_def andthen_def)

lemma rekeyed_state_is_decoded:
  assumes "score_spans r a p = Inr (Inl state)" and "map_of state ''ant_mask'' = Some m"
  shows "\<exists>l d. decode_from_info (setitem state ''valid_antecedent_log_mask'' m) = Inr l \<and>
           map_of state ''output_dict'' = Some (Dict d) \<and>
           map_of d ''predicted_antecedents'' = Some (Long2 (lc_predicted_antecedents l))"
  using assms(1)
proof (rule score_spans_state)
  fix output_dict idx flat top_mask lm
  assume s: "state = [(''output_dict'', Dict output_dict),
              (''top_span_inds'', PyList [Long2 idx, Long1 flat]),
              (''top_span_mask'', Mask2 top_mask), (''ant_mask'', Float2 lm)]"
    and "\<exists>top_spans vai scores predicted.
       output_dict = [(''top_spans'', Spans top_spans), (''antecedent_indices'', Long2 vai),
                      (''predicted_antecedents'', Long2 predicted),
                      (''coreference_scores'', Float3 scores)] \<and>
       predict_antecedents scores = Inr predicted"
  then obtain top_spans vai scores predicted where
    o: "output_dict = [(''top_spans'', Spans top_spans), (''antecedent_indices'', Long2 vai),
                      (''predicted_antecedents'', Long2 predicted),
                      (''coreference_scores'', Float3 scores)]"
    and pr: "predict_antecedents scores = Inr predicted"
    by blast
  show ?thesis
    using s o pr
    by (simp add: decode_from_info_def getitem_def andthen_def setitem_def)
qed


end
